theory Spec2Isabelle
  imports Complex_Main "HOL-Library.Stream"
begin

section \<open>Python values used by the fraud-detection rules\<close>

text \<open>
  A Python \<open>float\<close> is a finite binary fraction, an infinity or a NaN. Every finite float
  is a rational number and Python compares a float with an \<open>int\<close> exactly, so the finite
  floats are embedded in \<open>rat\<close>; the three special values are kept apart because
  pydantic lets them through.
\<close>

datatype pyfloat = FloatVal rat | FloatInf | FloatNegInf | FloatNaN

fun float_gt_int :: "pyfloat \<Rightarrow> int \<Rightarrow> bool" where
  "float_gt_int (FloatVal q) n = (q > of_int n)"
| "float_gt_int FloatInf n = True"
| "float_gt_int FloatNegInf n = False"
| "float_gt_int FloatNaN n = False"

text \<open>
  The values that the endpoint and the dashboard build and return: strings, \<open>None\<close>,
  lists and dictionaries with string keys (in insertion order).
\<close>

datatype json = JNull | JStr string | JList "json list" | JDict "(string \<times> json) list"

text \<open>The errors the modelled code can raise.\<close>

datatype field_error = Missing string | WrongType string

datatype error = TypeError | ValidationError "field_error list"

subsection \<open>\<open>datetime\<close>, \<open>time\<close> and \<open>timedelta\<close>\<close>

text \<open>
  A \<open>datetime\<close> carries the calendar fields and an optional UTC offset (in seconds);
  \<open>tzinfo = None\<close> is a naive datetime. The arithmetic below follows the standard
  library's pure-Python \<open>datetime\<close> module.
\<close>

record datetime =
  year :: int
  month :: int
  day :: int
  hour :: int
  minute :: int
  second :: int
  microsecond :: int
  tzinfo :: "int option"

definition is_leap :: "int \<Rightarrow> bool" where
  "is_leap y = (y mod 4 = 0 \<and> (y mod 100 \<noteq> 0 \<or> y mod 400 = 0))"

definition days_before_year :: "int \<Rightarrow> int" where
  "days_before_year y' = (let y = y' - 1 in y * 365 + y div 4 - y div 100 + y div 400)"

definition days_in_month :: "int \<Rightarrow> int \<Rightarrow> int" where
  "days_in_month y m =
     (if m = 2 \<and> is_leap y then 29
      else if m = 2 then 28
      else if m = 4 \<or> m = 6 \<or> m = 9 \<or> m = 11 then 30
      else 31)"

definition days_before_month :: "int \<Rightarrow> int \<Rightarrow> int" where
  "days_before_month y m =
     (if m = 1 then 0 else if m = 2 then 31 else if m = 3 then 59
      else if m = 4 then 90 else if m = 5 then 120 else if m = 6 then 151
      else if m = 7 then 181 else if m = 8 then 212 else if m = 9 then 243
      else if m = 10 then 273 else if m = 11 then 304 else 334)
     + (if m > 2 \<and> is_leap y then 1 else 0)"

definition ymd2ord :: "int \<Rightarrow> int \<Rightarrow> int \<Rightarrow> int" where
  "ymd2ord y m d = days_before_year y + days_before_month y m + d"

definition toordinal :: "datetime \<Rightarrow> int" where
  "toordinal dt = ymd2ord (year dt) (month dt) (day dt)"

text \<open>\<open>weekday()\<close>: Monday is 0, Saturday is 5, Sunday is 6.\<close>

definition weekday :: "datetime \<Rightarrow> int" where
  "weekday dt = (toordinal dt + 6) mod 7"

text \<open>The values the \<open>datetime\<close> constructor accepts.\<close>

definition valid_datetime :: "datetime \<Rightarrow> bool" where
  "valid_datetime dt =
     (1 \<le> year dt \<and> year dt \<le> 9999 \<and> 1 \<le> month dt \<and> month dt \<le> 12 \<and>
      1 \<le> day dt \<and> day dt \<le> days_in_month (year dt) (month dt) \<and>
      0 \<le> hour dt \<and> hour dt < 24 \<and> 0 \<le> minute dt \<and> minute dt < 60 \<and>
      0 \<le> second dt \<and> second dt < 60 \<and> 0 \<le> microsecond dt \<and> microsecond dt < 1000000)"

text \<open>
  \<open>time(h, m, s, us)\<close>; \<open>datetime.time()\<close> drops the offset, and naive times compare as
  the tuples \<open>(hour, minute, second, microsecond)\<close>.
\<close>

datatype pytime = Time int int int int

definition datetime_time :: "datetime \<Rightarrow> pytime" where
  "datetime_time dt = Time (hour dt) (minute dt) (second dt) (microsecond dt)"

fun time_le :: "pytime \<Rightarrow> pytime \<Rightarrow> bool" where
  "time_le (Time h1 m1 s1 u1) (Time h2 m2 s2 u2) =
     (h1 < h2 \<or> (h1 = h2 \<and> (m1 < m2 \<or> (m1 = m2 \<and> (s1 < s2 \<or> (s1 = s2 \<and> u1 \<le> u2))))))"

record timedelta =
  days :: int
  seconds :: int
  microseconds :: int

text \<open>The \<open>timedelta\<close> constructor normalises with floor division.\<close>

definition mk_timedelta :: "int \<Rightarrow> int \<Rightarrow> int \<Rightarrow> timedelta" where
  "mk_timedelta d s us =
     (let s1 = s + us div 1000000;
          d1 = d + s1 div 86400
      in \<lparr>days = d1, seconds = s1 mod 86400, microseconds = us mod 1000000\<rparr>)"

text \<open>
  \<open>datetime.__sub__\<close>: equal offsets (both naive included) give the plain difference, a
  naive and an aware operand raise \<open>TypeError\<close>, two different offsets are compensated.
\<close>

definition datetime_sub :: "datetime \<Rightarrow> datetime \<Rightarrow> error + timedelta" where
  "datetime_sub self other =
     (let days1 = toordinal self;
          days2 = toordinal other;
          secs1 = second self + minute self * 60 + hour self * 3600;
          secs2 = second other + minute other * 60 + hour other * 3600;
          us = microsecond self - microsecond other
      in if tzinfo self = tzinfo other then Inr (mk_timedelta (days1 - days2) (secs1 - secs2) us)
         else case (tzinfo self, tzinfo other) of
             (Some myoff, Some otoff) \<Rightarrow>
                Inr (mk_timedelta (days1 - days2) (secs1 - secs2 + otoff - myoff) us)
           | _ \<Rightarrow> Inl TypeError)"

text \<open>
  The system clock is a stream of successive readings; \<open>datetime.now()\<close> consumes one and
  always returns a naive datetime.
\<close>

type_synonym clock = "datetime stream"

definition datetime_now :: "clock \<Rightarrow> datetime \<times> clock" where
  "datetime_now c = ((shd c)\<lparr>tzinfo := None\<rparr>, stl c)"

section \<open>Transactions and rules\<close>

text \<open>
  Both source files declare \<open>Transaction\<close> with the same nine fields and a tenth,
  \<open>transaction_time_weekday\<close>, which is a \<open>datetime\<close> in the API and a \<open>str\<close> in the
  dashboard; its type is the parameter \<open>'w\<close>.
\<close>

record 'w Transaction =
  id_tx :: string
  amount :: pyfloat
  payment_channel :: string
  device_type :: string
  transaction_time :: datetime
  location :: string
  high_value_tx_count :: int
  account_creation_date :: datetime
  is_verified :: bool
  transaction_time_weekday :: 'w

record 'w FraudRule =
  rule_id :: string
  description :: string
  action :: string
  condition :: "'w Transaction \<Rightarrow> clock \<Rightarrow> (error + bool) \<times> clock"

text \<open>A condition that neither reads the clock nor raises.\<close>

definition pure_cond ::
  "('w Transaction \<Rightarrow> bool) \<Rightarrow> 'w Transaction \<Rightarrow> clock \<Rightarrow> (error + bool) \<times> clock" where
  "pure_cond p t c = (Inr (p t), c)"

text \<open>\<open>(datetime.now() - t.account_creation_date).days <= 30\<close>, shared by both files.\<close>

definition recent_account_cond ::
  "'w Transaction \<Rightarrow> clock \<Rightarrow> (error + bool) \<times> clock" where
  "recent_account_cond t c =
     (case datetime_now c of
        (now, c') \<Rightarrow>
          (case datetime_sub now (account_creation_date t) of
             Inl e \<Rightarrow> (Inl e, c')
           | Inr d \<Rightarrow> (Inr (days d \<le> 30), c')))"

definition evaluate ::
  "'w FraudRule \<Rightarrow> 'w Transaction \<Rightarrow> clock \<Rightarrow> (error + string option \<times> string option) \<times> clock" where
  "evaluate self transaction c =
     (case condition self transaction c of
        (Inl e, c') \<Rightarrow> (Inl e, c')
      | (Inr b, c') \<Rightarrow>
          if b then (Inr (Some (action self), Some (description self)), c')
          else (Inr (None, None), c'))"

subsection \<open>The rule set of the API (\<open>FraudDetector.create_rules\<close>)\<close>

definition rule_R1 :: "datetime FraudRule" where
  "rule_R1 = \<lparr>rule_id = ''R1'', description = ''High transaction amount'', action = ''review'',
     condition = pure_cond (\<lambda>t. float_gt_int (amount t) 500000)\<rparr>"

definition rule_R2 :: "datetime FraudRule" where
  "rule_R2 = \<lparr>rule_id = ''R2'', description = ''Web channel transaction'', action = ''reject'',
     condition = pure_cond (\<lambda>t. payment_channel t = ''web'')\<rparr>"

definition rule_R3 :: "datetime FraudRule" where
  "rule_R3 = \<lparr>rule_id = ''R3'', description = ''Transaction from iOS device'', action = ''review'',
     condition = pure_cond (\<lambda>t. device_type t = ''iOS'')\<rparr>"

definition rule_R4 :: "datetime FraudRule" where
  "rule_R4 = \<lparr>rule_id = ''R4'', description = ''Late-night transaction'', action = ''review'',
     condition = pure_cond (\<lambda>t. time_le (Time 23 0 0 0) (datetime_time (transaction_time t))
                              \<or> time_le (datetime_time (transaction_time t)) (Time 5 0 0 0))\<rparr>"

definition rule_R5 :: "datetime FraudRule" where
  "rule_R5 = \<lparr>rule_id = ''R5'', description = ''Transaction from Lagos, Nigeria'', action = ''reject'',
     condition = pure_cond (\<lambda>t. location t = ''Lagos, Nigeria'')\<rparr>"

definition rule_R6 :: "datetime FraudRule" where
  "rule_R6 = \<lparr>rule_id = ''R6'', description = ''Frequent high-value transactions'', action = ''review'',
     condition = pure_cond (\<lambda>t. high_value_tx_count t > 5)\<rparr>"

definition rule_R7 :: "datetime FraudRule" where
  "rule_R7 = \<lparr>rule_id = ''R7'', description = ''Account created recently'', action = ''review'',
     condition = recent_account_cond\<rparr>"

definition rule_R8 :: "datetime FraudRule" where
  "rule_R8 = \<lparr>rule_id = ''R8'', description = ''Unverified account'', action = ''reject'',
     condition = pure_cond (\<lambda>t. \<not> is_verified t)\<rparr>"

definition rule_R9 :: "datetime FraudRule" where
  "rule_R9 = \<lparr>rule_id = ''R9'', description = ''Transaction during restricted period'',
     action = ''reject'',
     condition = pure_cond (\<lambda>t. weekday (transaction_time t) \<ge> 6)\<rparr>"

definition create_rules :: "datetime FraudRule list" where
  "create_rules =
     [rule_R1, rule_R2, rule_R3, rule_R4, rule_R5, rule_R6, rule_R7, rule_R8, rule_R9]"

subsection \<open>The rule set of the dashboard (\<open>create_fraud_rules\<close>)\<close>

definition app_rule_R1 :: "string FraudRule" where
  "app_rule_R1 = \<lparr>rule_id = ''R1'', description = ''High transaction amount'', action = ''review'',
     condition = pure_cond (\<lambda>t. float_gt_int (amount t) 500000)\<rparr>"

definition app_rule_R2 :: "string FraudRule" where
  "app_rule_R2 = \<lparr>rule_id = ''R2'', description = ''Web channel transaction'', action = ''reject'',
     condition = pure_cond (\<lambda>t. payment_channel t = ''web'')\<rparr>"

definition app_rule_R3 :: "string FraudRule" where
  "app_rule_R3 = \<lparr>rule_id = ''R3'', description = ''Transaction from iOS device'',
     action = ''review'', condition = pure_cond (\<lambda>t. device_type t = ''iOS'')\<rparr>"

definition app_rule_R4 :: "string FraudRule" where
  "app_rule_R4 = \<lparr>rule_id = ''R4'', description = ''Late-night transaction'', action = ''review'',
     condition = pure_cond (\<lambda>t. hour (transaction_time t) < 5 \<or> hour (transaction_time t) \<ge> 23)\<rparr>"

definition app_rule_R5 :: "string FraudRule" where
  "app_rule_R5 = \<lparr>rule_id = ''R5'', description = ''Transaction from Lagos, Nigeria'',
     action = ''reject'', condition = pure_cond (\<lambda>t. location t = ''Lagos, Nigeria'')\<rparr>"

definition app_rule_R6 :: "string FraudRule" where
  "app_rule_R6 = \<lparr>rule_id = ''R6'', description = ''Frequent high-value transactions'',
     action = ''review'', condition = pure_cond (\<lambda>t. high_value_tx_count t > 5)\<rparr>"

definition app_rule_R7 :: "string FraudRule" where
  "app_rule_R7 = \<lparr>rule_id = ''R7'', description = ''Account created recently'', action = ''review'',
     condition = recent_account_cond\<rparr>"

definition app_rule_R8 :: "string FraudRule" where
  "app_rule_R8 = \<lparr>rule_id = ''R8'', description = ''Unverified account'', action = ''reject'',
     condition = pure_cond (\<lambda>t. \<not> is_verified t)\<rparr>"

definition app_rule_R9 :: "string FraudRule" where
  "app_rule_R9 = \<lparr>rule_id = ''R9'', description = ''Transaction on weekend'', action = ''reject'',
     condition = pure_cond (\<lambda>t. transaction_time_weekday t \<in> set [''Saturday'', ''Sunday''])\<rparr>"

definition create_fraud_rules :: "string FraudRule list" where
  "create_fraud_rules =
     [app_rule_R1, app_rule_R2, app_rule_R3, app_rule_R4, app_rule_R5, app_rule_R6,
      app_rule_R7, app_rule_R8, app_rule_R9]"

section \<open>The evaluator\<close>

text \<open>Python's truth value of the \<open>action\<close> returned by \<open>evaluate\<close>.\<close>

fun truthy :: "string option \<Rightarrow> bool" where
  "truthy None = False"
| "truthy (Some s) = (s \<noteq> [])"

fun json_of :: "string option \<Rightarrow> json" where
  "json_of None = JNull"
| "json_of (Some s) = JStr s"

text \<open>
  The loop \<open>for rule in rules: ...\<close>, which is the same text in \<open>check_fraud\<close> and in
  \<open>evaluate_transactions\<close>: every rule is evaluated in turn, a match is appended, and an
  exception raised by a condition leaves the loop.
\<close>

fun rules_loop ::
  "'w FraudRule list \<Rightarrow> 'w Transaction \<Rightarrow> json list \<Rightarrow> clock \<Rightarrow> (error + json list) \<times> clock" where
  "rules_loop [] transaction actions c = (Inr actions, c)"
| "rules_loop (rule # rest) transaction actions c =
     (case evaluate rule transaction c of
        (Inl e, c') \<Rightarrow> (Inl e, c')
      | (Inr (act, descr), c') \<Rightarrow>
          rules_loop rest transaction
            (if truthy act
             then actions @ [JDict [(''action'', json_of act), (''reason'', json_of descr)]]
             else actions) c')"

record FraudDetector =
  rules :: "datetime FraudRule list"

definition fraud_detector :: FraudDetector where
  "fraud_detector = \<lparr>rules = create_rules\<rparr>"

definition check_fraud ::
  "FraudDetector \<Rightarrow> datetime Transaction \<Rightarrow> clock \<Rightarrow> (error + json list) \<times> clock" where
  "check_fraud self transaction c = rules_loop (rules self) transaction [] c"

text \<open>The endpoint \<open>POST /check_transaction/\<close>.\<close>

definition check_transaction ::
  "datetime Transaction \<Rightarrow> clock \<Rightarrow> (error + json) \<times> clock" where
  "check_transaction transaction c =
     (case check_fraud fraud_detector transaction c of
        (Inl e, c') \<Rightarrow> (Inl e, c')
      | (Inr fraud_results, c') \<Rightarrow>
          if fraud_results = []
          then (Inr (JDict [(''transaction_id'', JStr (id_tx transaction)),
                            (''status'', JStr ''clear''),
                            (''details'', JStr ''No fraud detected'')]), c')
          else (Inr (JDict [(''transaction_id'', JStr (id_tx transaction)),
                            (''status'', JStr ''flagged''),
                            (''details'', JList fraud_results)]), c'))"

text \<open>The dashboard's \<open>evaluate_transactions\<close>, with the list of results as accumulator.\<close>

fun evaluate_transactions_loop ::
  "string Transaction list \<Rightarrow> string FraudRule list \<Rightarrow> json list \<Rightarrow> clock
     \<Rightarrow> (error + json list) \<times> clock" where
  "evaluate_transactions_loop [] rs results c = (Inr results, c)"
| "evaluate_transactions_loop (tx # txs) rs results c =
     (case rules_loop rs tx [] c of
        (Inl e, c') \<Rightarrow> (Inl e, c')
      | (Inr tx_results, c') \<Rightarrow>
          evaluate_transactions_loop txs rs
            (results @ [JDict [(''id'', JStr (id_tx tx)),
                               (''status'', JStr (if tx_results \<noteq> [] then ''flagged'' else ''clear'')),
                               (''details'', JList tx_results),
                               (''weekday'', JStr (transaction_time_weekday tx)),
                               (''location'', JStr (location tx))]]) c')"

definition evaluate_transactions ::
  "string Transaction list \<Rightarrow> string FraudRule list \<Rightarrow> clock \<Rightarrow> (error + json list) \<times> clock" where
  "evaluate_transactions transactions rs c = evaluate_transactions_loop transactions rs [] c"

section \<open>Validation of a request\<close>

text \<open>
  \<open>Transaction\<close> is a pydantic model: constructing it from an untyped object checks, field
  by field in declaration order, that the key is present and that the library's validator
  for the declared type accepts its value, and reports every offending field. No field is
  declared with a default.

  What the repository fixes is the list of fields and the type of each. Which untyped
  values the library converts to a \<open>str\<close>, a \<open>float\<close>, an \<open>int\<close>, a \<open>bool\<close> or a
  \<open>datetime\<close>, and to what, is the library's own and depends on its version and mode; the
  five validators are therefore a parameter of the model.
\<close>

datatype raw = RNone | RBool bool | RInt int | RFloat pyfloat | RStr string | RDatetime datetime

record pydantic =
  str_validator :: "raw \<Rightarrow> string option"
  float_validator :: "raw \<Rightarrow> pyfloat option"
  int_validator :: "raw \<Rightarrow> int option"
  bool_validator :: "raw \<Rightarrow> bool option"
  datetime_validator :: "raw \<Rightarrow> datetime option"

definition get_field ::
  "(raw \<Rightarrow> 'a option) \<Rightarrow> (string \<rightharpoonup> raw) \<Rightarrow> string \<Rightarrow> field_error + 'a" where
  "get_field validator obj k =
     (case obj k of
        None \<Rightarrow> Inl (Missing k)
      | Some v \<Rightarrow> (case validator v of None \<Rightarrow> Inl (WrongType k) | Some x \<Rightarrow> Inr x))"

text \<open>One more field: its value is passed on, or its error joins those found so far.\<close>

fun and_field ::
  "field_error list + ('a \<Rightarrow> 'b) \<Rightarrow> field_error + 'a \<Rightarrow> field_error list + 'b" where
  "and_field (Inr f) (Inr x) = Inr (f x)"
| "and_field (Inr f) (Inl e) = Inl [e]"
| "and_field (Inl es) (Inr x) = Inl es"
| "and_field (Inl es) (Inl e) = Inl (es @ [e])"

definition Transaction_validate ::
  "pydantic \<Rightarrow> (raw \<Rightarrow> 'w option) \<Rightarrow> (string \<rightharpoonup> raw) \<Rightarrow> error + 'w Transaction" where
  "Transaction_validate lib weekday_validator obj =
     (case
        and_field (and_field (and_field (and_field (and_field (and_field (and_field (and_field
          (and_field (and_field
            (Inr (\<lambda>v1 v2 v3 v4 v5 v6 v7 v8 v9 v10.
               \<lparr>id_tx = v1, amount = v2, payment_channel = v3, device_type = v4,
                transaction_time = v5, location = v6, high_value_tx_count = v7,
                account_creation_date = v8, is_verified = v9,
                transaction_time_weekday = v10\<rparr>))
            (get_field (str_validator lib) obj ''id''))
            (get_field (float_validator lib) obj ''amount''))
            (get_field (str_validator lib) obj ''payment_channel''))
            (get_field (str_validator lib) obj ''device_type''))
            (get_field (datetime_validator lib) obj ''transaction_time''))
            (get_field (str_validator lib) obj ''location''))
            (get_field (int_validator lib) obj ''high_value_tx_count''))
            (get_field (datetime_validator lib) obj ''account_creation_date''))
            (get_field (bool_validator lib) obj ''is_verified''))
            (get_field weekday_validator obj ''transaction_time_weekday'')
      of Inl es \<Rightarrow> Inl (ValidationError es)
       | Inr t \<Rightarrow> Inr t)"

text \<open>\<open>transaction_time_weekday: datetime\<close> in the API, \<open>str\<close> in the dashboard.\<close>

definition Transaction_validate_api ::
  "pydantic \<Rightarrow> (string \<rightharpoonup> raw) \<Rightarrow> error + datetime Transaction" where
  "Transaction_validate_api lib = Transaction_validate lib (datetime_validator lib)"

definition Transaction_validate_app ::
  "pydantic \<Rightarrow> (string \<rightharpoonup> raw) \<Rightarrow> error + string Transaction" where
  "Transaction_validate_app lib = Transaction_validate lib (str_validator lib)"

text \<open>
  To evaluate a property at a concrete request, the validators are needed on the values of
  that request only. \<open>exact_values\<close> gives them on the values that already have the
  field's type (a string, a float, an integer, a boolean, a well-formed timestamp with or
  without offset, and for a \<open>float\<close> also an integer that is a float exactly): there the
  library returns the value itself in every version and mode. The further values that the
  library converts are not described by it, and no property is stated of it: the
  properties of validation hold for every record of validators, and \<open>exact_values\<close> only
  instantiates them at requests made of such values.
\<close>

definition exact_values :: pydantic where
  "exact_values =
     \<lparr>str_validator = (\<lambda>x. case x of RStr s \<Rightarrow> Some s | _ \<Rightarrow> None),
      float_validator =
        (\<lambda>x. case x of
           RFloat f \<Rightarrow> Some f
         | RInt n \<Rightarrow> if \<bar>n\<bar> \<le> 2 ^ 53 then Some (FloatVal (of_int n)) else None
         | _ \<Rightarrow> None),
      int_validator = (\<lambda>x. case x of RInt n \<Rightarrow> Some n | _ \<Rightarrow> None),
      bool_validator = (\<lambda>x. case x of RBool b \<Rightarrow> Some b | _ \<Rightarrow> None),
      datetime_validator =
        (\<lambda>x. case x of
           RDatetime d \<Rightarrow> if valid_datetime d then Some d else None
         | _ \<Rightarrow> None)\<rparr>"

section \<open>Notions used to state the properties\<close>

text \<open>The object supplies the key with a value that the validator converts to \<open>v\<close>.\<close>

definition supplies :: "(raw \<Rightarrow> 'a option) \<Rightarrow> (string \<rightharpoonup> raw) \<Rightarrow> string \<Rightarrow> 'a \<Rightarrow> bool" where
  "supplies validator obj k v =
     (case obj k of None \<Rightarrow> False | Some x \<Rightarrow> validator x = Some v)"

text \<open>A rule matches when its condition returns \<open>True\<close>; the entry a matching rule appends.\<close>

definition rule_matches :: "'w FraudRule \<Rightarrow> 'w Transaction \<Rightarrow> clock \<Rightarrow> bool" where
  "rule_matches r t c = (fst (condition r t c) = Inr True)"

definition match_entry :: "'w FraudRule \<Rightarrow> json" where
  "match_entry r = JDict [(''action'', JStr (action r)), (''reason'', JStr (description r))]"

text \<open>Looking a key up in a returned dictionary.\<close>

fun field :: "json \<Rightarrow> string \<Rightarrow> json option" where
  "field (JDict kvs) k = map_of kvs k"
| "field _ k = None"

text \<open>An entry of the shape \<open>{"action": "review" | "reject", "reason": string}\<close>.\<close>

fun is_detail :: "json \<Rightarrow> bool" where
  "is_detail (JDict [(k1, JStr a), (k2, JStr d)]) =
     (k1 = ''action'' \<and> k2 = ''reason'' \<and> (a = ''review'' \<or> a = ''reject''))"
| "is_detail _ = False"

text \<open>
  A result whose \<open>details\<close> is a list and whose \<open>status\<close> is \<open>clear\<close> when that list
  is empty and \<open>flagged\<close> when it is not.
\<close>

definition status_consistent :: "json \<Rightarrow> bool" where
  "status_consistent res =
     (case field res ''details'' of
        Some (JList ds) \<Rightarrow>
          field res ''status'' = Some (JStr (if ds = [] then ''clear'' else ''flagged''))
      | _ \<Rightarrow> False)"

text \<open>
  What the dashboard reports for one row evaluated when the clock is \<open>c\<close>, and for a batch
  of rows, each evaluated at the next reading of the clock.
\<close>

definition dashboard_result :: "string Transaction \<Rightarrow> clock \<Rightarrow> json" where
  "dashboard_result tx c =
     JDict [(''id'', JStr (id_tx tx)),
            (''status'',
               JStr (if filter (\<lambda>r. rule_matches r tx c) create_fraud_rules \<noteq> []
                     then ''flagged'' else ''clear'')),
            (''details'',
               JList (map match_entry (filter (\<lambda>r. rule_matches r tx c) create_fraud_rules))),
            (''weekday'', JStr (transaction_time_weekday tx)),
            (''location'', JStr (location tx))]"

fun dashboard_results :: "string Transaction list \<Rightarrow> clock \<Rightarrow> json list" where
  "dashboard_results [] c = []"
| "dashboard_results (tx # txs) c = dashboard_result tx c # dashboard_results txs (stl c)"

text \<open>The time of day in microseconds since midnight.\<close>

definition time_of_day_us :: "datetime \<Rightarrow> int" where
  "time_of_day_us dt = ((hour dt * 60 + minute dt) * 60 + second dt) * 1000000 + microsecond dt"

text \<open>Python's order on naive datetimes: the order of the tuples of their seven fields.\<close>

definition datetime_lt :: "datetime \<Rightarrow> datetime \<Rightarrow> bool" where
  "datetime_lt a b =
     (year a < year b \<or> (year a = year b \<and>
     (month a < month b \<or> (month a = month b \<and>
     (day a < day b \<or> (day a = day b \<and>
     (hour a < hour b \<or> (hour a = hour b \<and>
     (minute a < minute b \<or> (minute a = minute b \<and>
     (second a < second b \<or> (second a = second b \<and>
      microsecond a < microsecond b))))))))))))"

text \<open>The number of days of a year.\<close>

definition year_length :: "int \<Rightarrow> int" where
  "year_length y = (if is_leap y then 366 else 365)"

text \<open>The whole days elapsed between two naive datetimes, rounded towards minus infinity.\<close>

definition elapsed_days :: "datetime \<Rightarrow> datetime \<Rightarrow> int" where
  "elapsed_days now d =
     (((toordinal now - toordinal d) * 86400
        + (hour now * 3600 + minute now * 60 + second now)
        - (hour d * 3600 + minute d * 60 + second d)) * 1000000
        + (microsecond now - microsecond d)) div 86400000000"

subsection \<open>Concrete inputs\<close>

text \<open>\<open>datetime(y, m, d, h, mi, s)\<close>, naive.\<close>

definition mk_datetime :: "int \<Rightarrow> int \<Rightarrow> int \<Rightarrow> int \<Rightarrow> int \<Rightarrow> int \<Rightarrow> datetime" where
  "mk_datetime y m d h mi s =
     \<lparr>year = y, month = m, day = d, hour = h, minute = mi, second = s, microsecond = 0,
      tzinfo = None\<rparr>"

text \<open>A clock that reads 2024-12-22 23:30:00 forever, and one that moves on after one reading.\<close>

definition clock_dec22 :: clock where
  "clock_dec22 = sconst (mk_datetime 2024 12 22 23 30 0)"

definition clock_dec22_then_later :: clock where
  "clock_dec22_then_later = mk_datetime 2024 12 22 23 30 0 ## sconst (mk_datetime 2025 6 1 9 0 0)"

text \<open>The scenario of the specification: Tuesday 2024-11-12 23:30:00, account 40 days old.\<close>

definition scenario_tx :: "datetime Transaction" where
  "scenario_tx =
     \<lparr>id_tx = ''TXN001'', amount = FloatVal 600000, payment_channel = ''web'',
      device_type = ''Android'', transaction_time = mk_datetime 2024 11 12 23 30 0,
      location = ''Lagos, Nigeria'', high_value_tx_count = 1,
      account_creation_date = mk_datetime 2024 11 12 23 30 0, is_verified = True,
      transaction_time_weekday = mk_datetime 2024 11 12 23 30 0\<rparr>"

text \<open>A benign transaction at noon on Wednesday 2024-11-13, account two years old.\<close>

definition benign_tx :: "datetime Transaction" where
  "benign_tx =
     \<lparr>id_tx = ''TXN002'', amount = FloatVal 100, payment_channel = ''atm'',
      device_type = ''Android'', transaction_time = mk_datetime 2024 11 13 12 0 0,
      location = ''Accra, Ghana'', high_value_tx_count = 0,
      account_creation_date = mk_datetime 2022 12 22 12 0 0, is_verified = True,
      transaction_time_weekday = mk_datetime 2024 11 13 12 0 0\<rparr>"

text \<open>The same transaction at noon on Saturday 2024-11-16, and on Sunday 2024-11-17.\<close>

definition saturday_tx :: "datetime Transaction" where
  "saturday_tx = benign_tx\<lparr>transaction_time := mk_datetime 2024 11 16 12 0 0\<rparr>"

definition sunday_tx :: "datetime Transaction" where
  "sunday_tx = benign_tx\<lparr>transaction_time := mk_datetime 2024 11 17 12 0 0\<rparr>"

text \<open>The Sunday transaction on an unverified account.\<close>

definition unverified_sunday_tx :: "datetime Transaction" where
  "unverified_sunday_tx = sunday_tx\<lparr>is_verified := False\<rparr>"

text \<open>A dashboard row at exactly 05:00:00 on Wednesday 2024-11-13.\<close>

definition five_am_row :: "string Transaction" where
  "five_am_row =
     \<lparr>id_tx = ''TXN003'', amount = FloatVal 100, payment_channel = ''atm'',
      device_type = ''Android'', transaction_time = mk_datetime 2024 11 13 5 0 0,
      location = ''Accra, Ghana'', high_value_tx_count = 0,
      account_creation_date = mk_datetime 2022 12 22 12 0 0, is_verified = True,
      transaction_time_weekday = ''Wednesday''\<rparr>"

text \<open>The benign transaction with its account created at 2022-12-22T12:00:00+00:00.\<close>

definition aware_tx :: "datetime Transaction" where
  "aware_tx =
     benign_tx\<lparr>account_creation_date := (mk_datetime 2022 12 22 12 0 0)\<lparr>tzinfo := Some 0\<rparr>\<rparr>"

text \<open>
  The same on an unverified account, and the like dashboard row; and the benign
  transaction with its account created at 2030-01-01T00:00:00+00:00.
\<close>

definition aware_unverified_tx :: "datetime Transaction" where
  "aware_unverified_tx = aware_tx\<lparr>is_verified := False\<rparr>"

definition aware_unverified_row :: "string Transaction" where
  "aware_unverified_row =
     five_am_row\<lparr>account_creation_date := (mk_datetime 2022 12 22 12 0 0)\<lparr>tzinfo := Some 0\<rparr>,
       is_verified := False\<rparr>"

definition future_aware_tx :: "datetime Transaction" where
  "future_aware_tx =
     benign_tx\<lparr>account_creation_date := (mk_datetime 2030 1 1 0 0 0)\<lparr>tzinfo := Some 0\<rparr>\<rparr>"

text \<open>
  The benign transaction, and the dashboard row, with the account created one second after
  the clock's reading.
\<close>

definition future_tx :: "datetime Transaction" where
  "future_tx = benign_tx\<lparr>account_creation_date := mk_datetime 2024 12 22 23 30 1\<rparr>"

definition future_row :: "string Transaction" where
  "future_row = five_am_row\<lparr>account_creation_date := mk_datetime 2024 12 22 23 30 1\<rparr>"

text \<open>A request with exactly the nine fields of the data model, and one with all ten.\<close>

definition nine_field_request :: "string \<rightharpoonup> raw" where
  "nine_field_request =
     [''id'' \<mapsto> RStr ''TXN002'', ''amount'' \<mapsto> RInt 100, ''payment_channel'' \<mapsto> RStr ''atm'',
      ''device_type'' \<mapsto> RStr ''Android'',
      ''transaction_time'' \<mapsto> RDatetime (mk_datetime 2024 11 13 12 0 0),
      ''location'' \<mapsto> RStr ''Accra, Ghana'', ''high_value_tx_count'' \<mapsto> RInt 0,
      ''account_creation_date'' \<mapsto> RDatetime (mk_datetime 2022 12 22 12 0 0),
      ''is_verified'' \<mapsto> RBool True]"

definition ten_field_request :: "string \<rightharpoonup> raw" where
  "ten_field_request =
     nine_field_request(''transaction_time_weekday'' \<mapsto> RDatetime (mk_datetime 2024 11 13 12 0 0))"

text \<open>The dashboard row of 05:00:00 as an untyped row, with its weekday tag.\<close>

definition five_am_request :: "string \<rightharpoonup> raw" where
  "five_am_request =
     nine_field_request(''id'' \<mapsto> RStr ''TXN003'',
       ''transaction_time'' \<mapsto> RDatetime (mk_datetime 2024 11 13 5 0 0),
       ''transaction_time_weekday'' \<mapsto> RStr ''Wednesday'')"

definition aware_request :: "string \<rightharpoonup> raw" where
  "aware_request =
     ten_field_request(''account_creation_date'' \<mapsto>
       RDatetime ((mk_datetime 2022 12 22 12 0 0)\<lparr>tzinfo := Some 0\<rparr>))"

section \<open>Properties of the evaluator\<close>

lemma evaluate_pure:
  assumes "condition r = pure_cond p"
  shows "evaluate r t c =
    (Inr (if p t then (Some (action r), Some (description r)) else (None, None)), c)"
  using assms by (simp add: evaluate_def pure_cond_def)

lemma rule_matches_pure:
  assumes "condition r = pure_cond p"
  shows "rule_matches r t c = p t"
  using assms by (simp add: rule_matches_def pure_cond_def)

lemma rules_loop_pure:
  assumes "\<forall>r\<in>set rs. (\<exists>p. condition r = pure_cond p) \<and> action r \<noteq> []"
  shows "rules_loop rs t acc c =
     (Inr (acc @ map match_entry (filter (\<lambda>r. rule_matches r t c') rs)), c)"
  using assms
proof (induction rs arbitrary: acc)
  case Nil
  then show ?case by simp
next
  case (Cons r rs)
  from Cons.prems obtain p where p: "condition r = pure_cond p" and a: "action r \<noteq> []"
    by auto
  have rest: "\<forall>r\<in>set rs. (\<exists>p. condition r = pure_cond p) \<and> action r \<noteq> []"
    using Cons.prems by simp
  show ?case
    using a
    by (simp add: evaluate_pure [OF p] rule_matches_pure [OF p] Cons.IH [OF rest] match_entry_def)
qed

lemma rules_loop_append:
  "rules_loop (xs @ ys) t acc c =
     (case rules_loop xs t acc c of
        (Inl e, c') \<Rightarrow> (Inl e, c')
      | (Inr acc', c') \<Rightarrow> rules_loop ys t acc' c')"
  by (induction xs arbitrary: acc c) (auto split: prod.splits sum.splits)

lemma floor_days:
  "d + (s + us div 1000000) div 86400 = ((d * 86400 + s) * 1000000 + us) div (86400000000::int)"
proof -
  have "((d * 86400 + s) * 1000000 + us) div (1000000 * 86400)
      = (((d * 86400 + s) * 1000000 + us) div 1000000) div (86400::int)"
    by (rule zdiv_zmult2_eq) simp
  also have "((d * 86400 + s) * 1000000 + us) div 1000000 = d * 86400 + s + us div (1000000::int)"
    by simp
  also have "(d * 86400 + s + us div 1000000) div 86400 = d + (s + us div 1000000) div (86400::int)"
    by simp
  finally show ?thesis by simp
qed

lemma datetime_sub_naive:
  assumes "tzinfo d = None" "tzinfo n = None"
  shows "\<exists>td. datetime_sub n d = Inr td \<and> days td = elapsed_days n d"
proof -
  have "toordinal n - toordinal d +
        (second n + minute n * 60 + hour n * 3600 - (second d + minute d * 60 + hour d * 3600)
          + (microsecond n - microsecond d) div 1000000) div 86400 = elapsed_days n d"
    unfolding elapsed_days_def floor_days by (simp add: algebra_simps)
  then show ?thesis
    using assms by (simp add: datetime_sub_def mk_timedelta_def Let_def)
qed

lemma toordinal_tz [simp]: "toordinal (d\<lparr>tzinfo := z\<rparr>) = toordinal d"
  by (simp add: toordinal_def)

lemma elapsed_days_tz [simp]: "elapsed_days (n\<lparr>tzinfo := z\<rparr>) d = elapsed_days n d"
  by (simp add: elapsed_days_def)

lemma recent_naive:
  assumes "tzinfo (account_creation_date t) = None"
  shows "recent_account_cond t c =
     (Inr (elapsed_days (shd c) (account_creation_date t) \<le> 30), stl c)"
proof -
  obtain td where "datetime_sub ((shd c)\<lparr>tzinfo := None\<rparr>) (account_creation_date t) = Inr td"
    and "days td = elapsed_days (shd c) (account_creation_date t)"
    using datetime_sub_naive [OF assms, of "(shd c)\<lparr>tzinfo := None\<rparr>"] by auto
  then show ?thesis
    by (simp add: recent_account_cond_def datetime_now_def)
qed

lemma recent_aware:
  assumes "tzinfo (account_creation_date t) \<noteq> None"
  shows "recent_account_cond t c = (Inl TypeError, stl c)"
  using assms by (auto simp add: recent_account_cond_def datetime_now_def datetime_sub_def Let_def)

lemmas api_rule_defs = rule_R1_def rule_R2_def rule_R3_def rule_R4_def rule_R5_def rule_R6_def
  rule_R7_def rule_R8_def rule_R9_def

lemmas app_rule_defs = app_rule_R1_def app_rule_R2_def app_rule_R3_def app_rule_R4_def
  app_rule_R5_def app_rule_R6_def app_rule_R7_def app_rule_R8_def app_rule_R9_def

lemma pure_R1_R6:
  "\<forall>r\<in>set [rule_R1, rule_R2, rule_R3, rule_R4, rule_R5, rule_R6].
     (\<exists>p. condition r = pure_cond p) \<and> action r \<noteq> []"
  by (auto simp: api_rule_defs)

lemma pure_R8_R9:
  "\<forall>r\<in>set [rule_R8, rule_R9]. (\<exists>p. condition r = pure_cond p) \<and> action r \<noteq> []"
  by (auto simp: api_rule_defs)

lemma create_rules_split:
  "create_rules =
     [rule_R1, rule_R2, rule_R3, rule_R4, rule_R5, rule_R6] @ [rule_R7] @ [rule_R8, rule_R9]"
  by (simp add: create_rules_def)

lemma app_pure_R1_R6:
  "\<forall>r\<in>set [app_rule_R1, app_rule_R2, app_rule_R3, app_rule_R4, app_rule_R5, app_rule_R6].
     (\<exists>p. condition r = pure_cond p) \<and> action r \<noteq> []"
  by (auto simp: app_rule_defs)

lemma app_pure_R8_R9:
  "\<forall>r\<in>set [app_rule_R8, app_rule_R9]. (\<exists>p. condition r = pure_cond p) \<and> action r \<noteq> []"
  by (auto simp: app_rule_defs)

lemma create_fraud_rules_split:
  "create_fraud_rules =
     [app_rule_R1, app_rule_R2, app_rule_R3, app_rule_R4, app_rule_R5, app_rule_R6]
       @ [app_rule_R7] @ [app_rule_R8, app_rule_R9]"
  by (simp add: create_fraud_rules_def)

lemma rules_loop_recent_naive:
  assumes "tzinfo (account_creation_date t) = None"
    and "condition r = recent_account_cond" and "action r \<noteq> []"
  shows "rules_loop [r] t acc c =
      (Inr (acc @ map match_entry (filter (\<lambda>r. rule_matches r t c) [r])), stl c)"
  using assms
  by (simp add: evaluate_def recent_naive rule_matches_def match_entry_def)

lemma rules_loop_recent_aware:
  assumes "tzinfo (account_creation_date t) \<noteq> None"
    and "condition r = recent_account_cond"
  shows "rules_loop [r] t acc c = (Inl TypeError, stl c)"
  using assms by (simp add: evaluate_def recent_aware)

lemma check_fraud_naive:
  assumes "tzinfo (account_creation_date t) = None"
  shows "check_fraud fraud_detector t c =
     (Inr (map match_entry (filter (\<lambda>r. rule_matches r t c) create_rules)), stl c)"
proof -
  have r7: "rules_loop [rule_R7] t acc c =
      (Inr (acc @ map match_entry (filter (\<lambda>r. rule_matches r t c) [rule_R7])), stl c)" for acc
    by (rule rules_loop_recent_naive [OF assms]) (simp_all add: rule_R7_def)
  show ?thesis
    unfolding check_fraud_def fraud_detector_def create_rules_split
    by (simp only: FraudDetector.simps rules_loop_append
          rules_loop_pure [OF pure_R1_R6, where c' = c] r7
          rules_loop_pure [OF pure_R8_R9, where c' = c]
          prod.case sum.case filter_append map_append append_Nil append_assoc)
qed

lemma check_fraud_aware:
  assumes "tzinfo (account_creation_date t) \<noteq> None"
  shows "check_fraud fraud_detector t c = (Inl TypeError, stl c)"
proof -
  have r7: "rules_loop [rule_R7] t acc c = (Inl TypeError, stl c)" for acc
    by (rule rules_loop_recent_aware [OF assms]) (simp add: rule_R7_def)
  show ?thesis
    unfolding check_fraud_def fraud_detector_def create_rules_split
    by (simp only: FraudDetector.simps rules_loop_append
          rules_loop_pure [OF pure_R1_R6, where c' = c] r7 prod.case sum.case)
qed

lemma app_rules_loop_naive:
  assumes "tzinfo (account_creation_date t) = None"
  shows "rules_loop create_fraud_rules t [] c =
     (Inr (map match_entry (filter (\<lambda>r. rule_matches r t c) create_fraud_rules)), stl c)"
proof -
  have r7: "rules_loop [app_rule_R7] t acc c =
      (Inr (acc @ map match_entry (filter (\<lambda>r. rule_matches r t c) [app_rule_R7])), stl c)" for acc
    by (rule rules_loop_recent_naive [OF assms]) (simp_all add: app_rule_R7_def)
  show ?thesis
    unfolding create_fraud_rules_split
    by (simp only: rules_loop_append
          rules_loop_pure [OF app_pure_R1_R6, where c' = c] r7
          rules_loop_pure [OF app_pure_R8_R9, where c' = c]
          prod.case sum.case filter_append map_append append_Nil append_assoc)
qed

lemma app_rules_loop_aware:
  assumes "tzinfo (account_creation_date t) \<noteq> None"
  shows "rules_loop create_fraud_rules t [] c = (Inl TypeError, stl c)"
proof -
  have r7: "rules_loop [app_rule_R7] t acc c = (Inl TypeError, stl c)" for acc
    by (rule rules_loop_recent_aware [OF assms]) (simp add: app_rule_R7_def)
  show ?thesis
    unfolding create_fraud_rules_split
    by (simp only: rules_loop_append
          rules_loop_pure [OF app_pure_R1_R6, where c' = c] r7 prod.case sum.case)
qed

subsection \<open>The late-night window of R4\<close>

lemma time_of_day_split:
  assumes "valid_datetime d"
  shows "\<exists>r. time_of_day_us d = hour d * 3600000000 + r \<and> 0 \<le> r \<and> r < 3600000000
           \<and> (r = 0 \<longleftrightarrow> minute d = 0 \<and> second d = 0 \<and> microsecond d = 0)"
proof -
  define q where "q = minute d * 60 + second d"
  define r where "r = q * 1000000 + microsecond d"
  have b: "0 \<le> minute d" "minute d \<le> 59" "0 \<le> second d" "second d \<le> 59"
    "0 \<le> microsecond d" "microsecond d \<le> 999999"
    using assms by (simp_all add: valid_datetime_def)
  have q: "0 \<le> q" "q \<le> 3599" "q = 0 \<longleftrightarrow> minute d = 0 \<and> second d = 0"
    using b unfolding q_def by linarith+
  have "time_of_day_us d = hour d * 3600000000 + r"
    by (simp add: time_of_day_us_def r_def q_def algebra_simps)
  moreover have "0 \<le> r" "r < 3600000000" "r = 0 \<longleftrightarrow> q = 0 \<and> microsecond d = 0"
    using q(1,2) b(5,6) unfolding r_def by linarith+
  ultimately show ?thesis using q(3) by blast
qed

text \<open>
  The API's R4 is the inclusive window of claim C4 on every valid \<open>transaction_time\<close>.
\<close>

lemma api_R4_inclusive:
  assumes "valid_datetime (transaction_time t)"
  shows "rule_matches rule_R4 t c \<longleftrightarrow>
     (time_of_day_us (transaction_time t) \<ge> 23 * 3600 * 1000000
      \<or> time_of_day_us (transaction_time t) \<le> 5 * 3600 * 1000000)"
proof -
  let ?d = "transaction_time t"
  obtain r where r: "time_of_day_us ?d = hour ?d * 3600000000 + r" "0 \<le> r" "r < 3600000000"
    "r = 0 \<longleftrightarrow> minute ?d = 0 \<and> second ?d = 0 \<and> microsecond ?d = 0"
    using time_of_day_split [OF assms] by blast
  have b: "0 \<le> minute ?d" "0 \<le> second ?d" "0 \<le> microsecond ?d"
    using assms by (simp_all add: valid_datetime_def)
  have late: "time_le (Time 23 0 0 0) (datetime_time ?d) \<longleftrightarrow> 23 \<le> hour ?d"
    using b by (auto simp: datetime_time_def)
  have early: "time_le (datetime_time ?d) (Time 5 0 0 0)
      \<longleftrightarrow> hour ?d < 5 \<or> (hour ?d = 5 \<and> r = 0)"
    using b r(4) by (auto simp: datetime_time_def)
  have l2: "time_of_day_us ?d \<ge> 23 * 3600 * 1000000 \<longleftrightarrow> 23 \<le> hour ?d"
    using r(1,2,3) by linarith
  have e2: "time_of_day_us ?d \<le> 5 * 3600 * 1000000 \<longleftrightarrow> hour ?d < 5 \<or> (hour ?d = 5 \<and> r = 0)"
    using r(1,2,3) by linarith
  show ?thesis
    unfolding l2 e2 by (simp add: rule_matches_def rule_R4_def pure_cond_def late early)
qed

text \<open>
  The dashboard's R4 is the same window without the instant 05:00:00: its early bound is
  strict.
\<close>

lemma app_R4_excludes_five:
  assumes "valid_datetime (transaction_time t)"
  shows "rule_matches app_rule_R4 t c \<longleftrightarrow>
     (time_of_day_us (transaction_time t) \<ge> 23 * 3600 * 1000000
      \<or> time_of_day_us (transaction_time t) < 5 * 3600 * 1000000)"
proof -
  let ?d = "transaction_time t"
  obtain r where r: "time_of_day_us ?d = hour ?d * 3600000000 + r" "0 \<le> r" "r < 3600000000"
    using time_of_day_split [OF assms] by blast
  have l2: "time_of_day_us ?d \<ge> 23 * 3600 * 1000000 \<longleftrightarrow> 23 \<le> hour ?d"
    using r by linarith
  have e2: "time_of_day_us ?d < 5 * 3600 * 1000000 \<longleftrightarrow> hour ?d < 5"
    using r by linarith
  show ?thesis
    unfolding l2 e2 by (auto simp add: rule_matches_def app_rule_R4_def pure_cond_def)
qed

subsection \<open>The weekend rule R9\<close>

lemma weekday_range: "0 \<le> weekday d \<and> weekday d \<le> 6"
  by (simp add: weekday_def)

lemmas calendar_defs = toordinal_def ymd2ord_def days_before_year_def days_before_month_def
  is_leap_def mk_datetime_def

text \<open>
  Claim C1, as amended. In the API, rule R9 matches exactly when \<open>weekday()\<close> of
  \<open>transaction_time\<close> is 6, that is on Sunday only; in the dashboard, R9 does not look at
  \<open>transaction_time\<close> but matches exactly when the supplied field
  \<open>transaction_time_weekday\<close> is the string \<open>Saturday\<close> or \<open>Sunday\<close>. In both, a match
  contributes the action \<open>reject\<close>.
\<close>

theorem R9_matches_on_sunday_only:
  "evaluate rule_R9 t c =
     (if weekday (transaction_time t) = 6
      then (Inr (Some ''reject'', Some ''Transaction during restricted period''), c)
      else (Inr (None, None), c))
   \<and> evaluate app_rule_R9 t' c =
     (if transaction_time_weekday t' = ''Saturday'' \<or> transaction_time_weekday t' = ''Sunday''
      then (Inr (Some ''reject'', Some ''Transaction on weekend''), c)
      else (Inr (None, None), c))"
proof -
  have "(weekday (transaction_time t) \<ge> 6) = (weekday (transaction_time t) = 6)"
    using weekday_range [of "transaction_time t"] by auto
  then show ?thesis
    by (simp add: evaluate_def rule_R9_def app_rule_R9_def pure_cond_def)
qed

lemma saturday_tx_time: "transaction_time saturday_tx = mk_datetime 2024 11 16 12 0 0"
  by (simp add: saturday_tx_def)

lemma weekday_2024_11_16: "weekday (mk_datetime 2024 11 16 12 0 0) = 5"
  by (simp add: weekday_def calendar_defs)

text \<open>
  Claim C1 as stated fails in the API: 2024-11-16 is a Saturday (\<open>weekday()\<close> is 5) and
  R9 does not match.
\<close>

theorem R9_saturday_counterexample:
  "weekday (transaction_time saturday_tx) = 5
   \<and> \<not> rule_matches rule_R9 saturday_tx clock_dec22
   \<and> evaluate rule_R9 saturday_tx clock_dec22 = (Inr (None, None), clock_dec22)"
proof (intro conjI)
  show "weekday (transaction_time saturday_tx) = 5"
    by (simp only: saturday_tx_time weekday_2024_11_16)
  show "\<not> rule_matches rule_R9 saturday_tx clock_dec22"
    by (simp add: rule_matches_def rule_R9_def pure_cond_def saturday_tx_time weekday_2024_11_16)
  show "evaluate rule_R9 saturday_tx clock_dec22 = (Inr (None, None), clock_dec22)"
    by (simp add: evaluate_def rule_R9_def pure_cond_def saturday_tx_time weekday_2024_11_16)
qed

lemma sunday_tx_time: "transaction_time sunday_tx = mk_datetime 2024 11 17 12 0 0"
  by (simp add: sunday_tx_def)

lemma weekday_2024_11_17: "weekday (mk_datetime 2024 11 17 12 0 0) = 6"
  by (simp add: weekday_def calendar_defs)

lemma five_am_row_weekday: "transaction_time_weekday five_am_row = ''Wednesday''"
  by (simp add: five_am_row_def)

text \<open>
  The amended C1 at the Sunday transaction (API) and at a row tagged Wednesday (dashboard).
\<close>

theorem R9_matches_on_sunday_only_witness:
  "evaluate rule_R9 sunday_tx clock_dec22 =
     (Inr (Some ''reject'', Some ''Transaction during restricted period''), clock_dec22)
   \<and> evaluate app_rule_R9 five_am_row clock_dec22 = (Inr (None, None), clock_dec22)"
  using R9_matches_on_sunday_only [of sunday_tx clock_dec22 five_am_row]
  by (simp add: sunday_tx_time weekday_2024_11_17 five_am_row_weekday)

lemma five_am_row_time: "transaction_time five_am_row = mk_datetime 2024 11 13 5 0 0"
  by (simp add: five_am_row_def)

text \<open>
  Claim C4 at the failing input. At exactly 05:00:00 the dashboard's R4
  (\<open>hour < 5 or hour >= 23\<close>) does not match, while the API's R4, which compares the time
  of day with \<open>time(5, 0)\<close> inclusively, does.
\<close>

theorem dashboard_R4_misses_five_am:
  "valid_datetime (transaction_time five_am_row)
   \<and> time_of_day_us (transaction_time five_am_row) = 5 * 3600 * 1000000
   \<and> evaluate app_rule_R4 five_am_row clock_dec22 = (Inr (None, None), clock_dec22)
   \<and> evaluate rule_R4 (benign_tx\<lparr>transaction_time := transaction_time five_am_row\<rparr>) clock_dec22
       = (Inr (Some ''review'', Some ''Late-night transaction''), clock_dec22)"
proof (intro conjI)
  show "valid_datetime (transaction_time five_am_row)"
    by (simp add: five_am_row_time mk_datetime_def valid_datetime_def days_in_month_def)
  show "time_of_day_us (transaction_time five_am_row) = 5 * 3600 * 1000000"
    by (simp add: five_am_row_time mk_datetime_def time_of_day_us_def)
  show "evaluate app_rule_R4 five_am_row clock_dec22 = (Inr (None, None), clock_dec22)"
    by (simp add: five_am_row_time mk_datetime_def evaluate_def app_rule_R4_def pure_cond_def)
  show "evaluate rule_R4 (benign_tx\<lparr>transaction_time := transaction_time five_am_row\<rparr>)
          clock_dec22
        = (Inr (Some ''review'', Some ''Late-night transaction''), clock_dec22)"
    by (simp add: five_am_row_time mk_datetime_def evaluate_def
        rule_R4_def pure_cond_def datetime_time_def)
qed

subsection \<open>Which rules match, and the scenario of the specification\<close>

lemma api_pure_matches:
  "rule_matches rule_R1 t c = float_gt_int (amount t) 500000"
  "rule_matches rule_R2 t c = (payment_channel t = ''web'')"
  "rule_matches rule_R3 t c = (device_type t = ''iOS'')"
  "rule_matches rule_R4 t c =
     (time_le (Time 23 0 0 0) (datetime_time (transaction_time t))
      \<or> time_le (datetime_time (transaction_time t)) (Time 5 0 0 0))"
  "rule_matches rule_R5 t c = (location t = ''Lagos, Nigeria'')"
  "rule_matches rule_R6 t c = (high_value_tx_count t > 5)"
  "rule_matches rule_R8 t c = (\<not> is_verified t)"
  "rule_matches rule_R9 t c = (weekday (transaction_time t) \<ge> 6)"
  by (simp_all add: rule_matches_def api_rule_defs pure_cond_def)

lemma api_R7_matches:
  "tzinfo (account_creation_date t) = None \<Longrightarrow>
   rule_matches rule_R7 t c = (elapsed_days (shd c) (account_creation_date t) \<le> 30)"
  by (simp add: rule_matches_def rule_R7_def recent_naive)

lemma app_pure_matches:
  "rule_matches app_rule_R1 t c = float_gt_int (amount t) 500000"
  "rule_matches app_rule_R2 t c = (payment_channel t = ''web'')"
  "rule_matches app_rule_R3 t c = (device_type t = ''iOS'')"
  "rule_matches app_rule_R4 t c = (hour (transaction_time t) < 5 \<or> hour (transaction_time t) \<ge> 23)"
  "rule_matches app_rule_R5 t c = (location t = ''Lagos, Nigeria'')"
  "rule_matches app_rule_R6 t c = (high_value_tx_count t > 5)"
  "rule_matches app_rule_R8 t c = (\<not> is_verified t)"
  "rule_matches app_rule_R9 t c =
     (transaction_time_weekday t = ''Saturday'' \<or> transaction_time_weekday t = ''Sunday'')"
  by (simp_all add: rule_matches_def app_rule_defs pure_cond_def)

lemma app_R7_matches:
  "tzinfo (account_creation_date t) = None \<Longrightarrow>
   rule_matches app_rule_R7 t c = (elapsed_days (shd c) (account_creation_date t) \<le> 30)"
  by (simp add: rule_matches_def app_rule_R7_def recent_naive)

lemma api_entries:
  "match_entry rule_R1 = JDict [(''action'', JStr ''review''), (''reason'', JStr ''High transaction amount'')]"
  "match_entry rule_R2 = JDict [(''action'', JStr ''reject''), (''reason'', JStr ''Web channel transaction'')]"
  "match_entry rule_R3 = JDict [(''action'', JStr ''review''), (''reason'', JStr ''Transaction from iOS device'')]"
  "match_entry rule_R4 = JDict [(''action'', JStr ''review''), (''reason'', JStr ''Late-night transaction'')]"
  "match_entry rule_R5 = JDict [(''action'', JStr ''reject''), (''reason'', JStr ''Transaction from Lagos, Nigeria'')]"
  "match_entry rule_R6 = JDict [(''action'', JStr ''review''), (''reason'', JStr ''Frequent high-value transactions'')]"
  "match_entry rule_R7 = JDict [(''action'', JStr ''review''), (''reason'', JStr ''Account created recently'')]"
  "match_entry rule_R8 = JDict [(''action'', JStr ''reject''), (''reason'', JStr ''Unverified account'')]"
  "match_entry rule_R9 = JDict [(''action'', JStr ''reject''), (''reason'', JStr ''Transaction during restricted period'')]"
  by (simp_all add: match_entry_def api_rule_defs)

lemma weekday_2024_11_12: "weekday (mk_datetime 2024 11 12 23 30 0) = 1"
  by (simp add: weekday_def calendar_defs)

lemma time_2024_11_12: "datetime_time (mk_datetime 2024 11 12 23 30 0) = Time 23 30 0 0"
  by (simp add: datetime_time_def mk_datetime_def)

text \<open>
  Claim C7. A transaction of 600000 over the web channel from an Android device on
  Tuesday 2024-11-12 at 23:30:00 in Lagos, Nigeria, with one earlier high-value
  transaction, a verified account and an account created 40 whole days before the clock's
  reading, matches exactly R1, R2, R4 and R5, reported in this order with the actions
  review, reject, review, reject, and the endpoint answers \<open>flagged\<close> with four entries.
\<close>

theorem scenario_flags_R1_R2_R4_R5:
  assumes "amount t = FloatVal 600000" and "payment_channel t = ''web''"
    and "device_type t = ''Android''"
    and "transaction_time t = mk_datetime 2024 11 12 23 30 0"
    and "location t = ''Lagos, Nigeria''" and "high_value_tx_count t = 1"
    and "tzinfo (account_creation_date t) = None"
    and "elapsed_days (shd c) (account_creation_date t) = 40"
    and "is_verified t"
  shows "weekday (transaction_time t) = 1
    \<and> map rule_id (filter (\<lambda>r. rule_matches r t c) (rules fraud_detector))
        = [''R1'', ''R2'', ''R4'', ''R5'']
    \<and> fst (check_fraud fraud_detector t c) =
        Inr [JDict [(''action'', JStr ''review''), (''reason'', JStr ''High transaction amount'')],
             JDict [(''action'', JStr ''reject''), (''reason'', JStr ''Web channel transaction'')],
             JDict [(''action'', JStr ''review''), (''reason'', JStr ''Late-night transaction'')],
             JDict [(''action'', JStr ''reject''),
                    (''reason'', JStr ''Transaction from Lagos, Nigeria'')]]
    \<and> (\<exists>ds. fst (check_transaction t c) =
          Inr (JDict [(''transaction_id'', JStr (id_tx t)), (''status'', JStr ''flagged''),
                      (''details'', JList ds)]) \<and> length ds = 4)"
proof -
  have m: "rule_matches rule_R1 t c" "rule_matches rule_R2 t c" "\<not> rule_matches rule_R3 t c"
    "rule_matches rule_R4 t c" "rule_matches rule_R5 t c" "\<not> rule_matches rule_R6 t c"
    "\<not> rule_matches rule_R7 t c" "\<not> rule_matches rule_R8 t c" "\<not> rule_matches rule_R9 t c"
    using assms
    by (simp_all add: api_pure_matches api_R7_matches weekday_2024_11_12 time_2024_11_12)
  have f: "filter (\<lambda>r. rule_matches r t c) create_rules = [rule_R1, rule_R2, rule_R4, rule_R5]"
    unfolding create_rules_def using m by simp
  have rs: "rules fraud_detector = create_rules"
    by (simp add: fraud_detector_def)
  have cf: "check_fraud fraud_detector t c =
      (Inr [match_entry rule_R1, match_entry rule_R2, match_entry rule_R4, match_entry rule_R5],
       stl c)"
    using check_fraud_naive [OF assms(7), of c] by (simp add: f)
  have w: "weekday (transaction_time t) = 1"
    using assms(4) by (simp add: weekday_2024_11_12)
  have ids: "map rule_id (filter (\<lambda>r. rule_matches r t c) (rules fraud_detector))
        = [''R1'', ''R2'', ''R4'', ''R5'']"
    unfolding rs f by (simp add: api_rule_defs)
  have ct: "\<exists>ds. fst (check_transaction t c) =
          Inr (JDict [(''transaction_id'', JStr (id_tx t)), (''status'', JStr ''flagged''),
                      (''details'', JList ds)]) \<and> length ds = 4"
    by (simp add: check_transaction_def cf)
  show ?thesis
    using w ids ct by (simp add: cf api_entries)
qed

lemma shd_clock_dec22: "shd clock_dec22 = mk_datetime 2024 12 22 23 30 0"
  by (simp add: clock_dec22_def)

lemma shd_clock_dec22_then_later: "shd clock_dec22_then_later = mk_datetime 2024 12 22 23 30 0"
  by (simp add: clock_dec22_then_later_def)

lemma scenario_tx_fields:
  "id_tx scenario_tx = ''TXN001''"
  "amount scenario_tx = FloatVal 600000"
  "payment_channel scenario_tx = ''web''"
  "device_type scenario_tx = ''Android''"
  "transaction_time scenario_tx = mk_datetime 2024 11 12 23 30 0"
  "location scenario_tx = ''Lagos, Nigeria''"
  "high_value_tx_count scenario_tx = 1"
  "account_creation_date scenario_tx = mk_datetime 2024 11 12 23 30 0"
  "is_verified scenario_tx"
  by (simp_all add: scenario_tx_def)

lemma tzinfo_mk_datetime: "tzinfo (mk_datetime y m d h mi s) = None"
  by (simp add: mk_datetime_def)

lemma toordinal_2024_12_22: "toordinal (mk_datetime 2024 12 22 h mi s) = 739242"
  by (simp add: calendar_defs)

lemma toordinal_2024_11_12: "toordinal (mk_datetime 2024 11 12 h mi s) = 739202"
  by (simp add: calendar_defs)

lemma elapsed_scenario:
  "elapsed_days (mk_datetime 2024 12 22 23 30 0) (mk_datetime 2024 11 12 23 30 0) = 40"
  unfolding elapsed_days_def toordinal_2024_12_22 toordinal_2024_11_12
  by (simp add: mk_datetime_def)

text \<open>
  C7 at the scenario transaction, evaluated on 2024-12-22 at 23:30:00.
\<close>

theorem scenario_flags_R1_R2_R4_R5_witness:
  "weekday (transaction_time scenario_tx) = 1
    \<and> map rule_id (filter (\<lambda>r. rule_matches r scenario_tx clock_dec22) (rules fraud_detector))
        = [''R1'', ''R2'', ''R4'', ''R5'']
    \<and> fst (check_fraud fraud_detector scenario_tx clock_dec22) =
        Inr [JDict [(''action'', JStr ''review''), (''reason'', JStr ''High transaction amount'')],
             JDict [(''action'', JStr ''reject''), (''reason'', JStr ''Web channel transaction'')],
             JDict [(''action'', JStr ''review''), (''reason'', JStr ''Late-night transaction'')],
             JDict [(''action'', JStr ''reject''),
                    (''reason'', JStr ''Transaction from Lagos, Nigeria'')]]
    \<and> (\<exists>ds. fst (check_transaction scenario_tx clock_dec22) =
          Inr (JDict [(''transaction_id'', JStr (id_tx scenario_tx)), (''status'', JStr ''flagged''),
                      (''details'', JList ds)]) \<and> length ds = 4)"
proof -
  have e: "elapsed_days (shd clock_dec22) (account_creation_date scenario_tx) = 40"
    by (simp only: shd_clock_dec22 scenario_tx_fields elapsed_scenario)
  have z: "tzinfo (account_creation_date scenario_tx) = None"
    by (simp only: scenario_tx_fields tzinfo_mk_datetime)
  show ?thesis
    by (rule scenario_flags_R1_R2_R4_R5 [OF scenario_tx_fields(2-7) z e scenario_tx_fields(9)])
qed

lemma benign_tx_fields:
  "id_tx benign_tx = ''TXN002''"
  "amount benign_tx = FloatVal 100"
  "payment_channel benign_tx = ''atm''"
  "device_type benign_tx = ''Android''"
  "transaction_time benign_tx = mk_datetime 2024 11 13 12 0 0"
  "location benign_tx = ''Accra, Ghana''"
  "high_value_tx_count benign_tx = 0"
  "account_creation_date benign_tx = mk_datetime 2022 12 22 12 0 0"
  "is_verified benign_tx"
  by (simp_all add: benign_tx_def)

lemma unverified_sunday_tx_fields:
  "id_tx unverified_sunday_tx = ''TXN002''"
  "amount unverified_sunday_tx = FloatVal 100"
  "payment_channel unverified_sunday_tx = ''atm''"
  "device_type unverified_sunday_tx = ''Android''"
  "transaction_time unverified_sunday_tx = mk_datetime 2024 11 17 12 0 0"
  "location unverified_sunday_tx = ''Accra, Ghana''"
  "high_value_tx_count unverified_sunday_tx = 0"
  "account_creation_date unverified_sunday_tx = mk_datetime 2022 12 22 12 0 0"
  "\<not> is_verified unverified_sunday_tx"
  by (simp_all add: unverified_sunday_tx_def sunday_tx_def benign_tx_fields)

lemma five_am_row_fields:
  "id_tx five_am_row = ''TXN003''"
  "amount five_am_row = FloatVal 100"
  "payment_channel five_am_row = ''atm''"
  "device_type five_am_row = ''Android''"
  "location five_am_row = ''Accra, Ghana''"
  "high_value_tx_count five_am_row = 0"
  "account_creation_date five_am_row = mk_datetime 2022 12 22 12 0 0"
  "is_verified five_am_row"
  by (simp_all add: five_am_row_def)

lemma toordinal_2022_12_22: "toordinal (mk_datetime 2022 12 22 h mi s) = 738511"
  by (simp add: calendar_defs)

lemma elapsed_two_years:
  "elapsed_days (mk_datetime 2024 12 22 23 30 0) (mk_datetime 2022 12 22 12 0 0) = 731"
  unfolding elapsed_days_def toordinal_2024_12_22 toordinal_2022_12_22
  by (simp add: mk_datetime_def)

lemma noon_not_late:
  "\<not> time_le (Time 23 0 0 0) (datetime_time (mk_datetime y m d 12 0 0))"
  "\<not> time_le (datetime_time (mk_datetime y m d 12 0 0)) (Time 5 0 0 0)"
  by (simp_all add: datetime_time_def mk_datetime_def)

lemma hour_mk_datetime: "hour (mk_datetime y m d h mi s) = h"
  by (simp add: mk_datetime_def)

lemma unverified_sunday_matches:
  "filter (\<lambda>r. rule_matches r unverified_sunday_tx clock_dec22) create_rules
     = [rule_R8, rule_R9]"
proof -
  have z: "tzinfo (account_creation_date unverified_sunday_tx) = None"
    by (simp only: unverified_sunday_tx_fields tzinfo_mk_datetime)
  have m: "\<not> rule_matches rule_R1 unverified_sunday_tx clock_dec22"
    "\<not> rule_matches rule_R2 unverified_sunday_tx clock_dec22"
    "\<not> rule_matches rule_R3 unverified_sunday_tx clock_dec22"
    "\<not> rule_matches rule_R4 unverified_sunday_tx clock_dec22"
    "\<not> rule_matches rule_R5 unverified_sunday_tx clock_dec22"
    "\<not> rule_matches rule_R6 unverified_sunday_tx clock_dec22"
    "\<not> rule_matches rule_R7 unverified_sunday_tx clock_dec22"
    "rule_matches rule_R8 unverified_sunday_tx clock_dec22"
    "rule_matches rule_R9 unverified_sunday_tx clock_dec22"
    by (simp_all add: api_pure_matches api_R7_matches [OF z] unverified_sunday_tx_fields
        shd_clock_dec22 elapsed_two_years noon_not_late weekday_2024_11_17)
  show ?thesis
    unfolding create_rules_def using m by simp
qed

lemma five_am_row_matches:
  "filter (\<lambda>r. rule_matches r five_am_row clock_dec22) create_fraud_rules = []"
proof -
  have z: "tzinfo (account_creation_date five_am_row) = None"
    by (simp only: five_am_row_fields tzinfo_mk_datetime)
  have m: "\<not> rule_matches app_rule_R1 five_am_row clock_dec22"
    "\<not> rule_matches app_rule_R2 five_am_row clock_dec22"
    "\<not> rule_matches app_rule_R3 five_am_row clock_dec22"
    "\<not> rule_matches app_rule_R4 five_am_row clock_dec22"
    "\<not> rule_matches app_rule_R5 five_am_row clock_dec22"
    "\<not> rule_matches app_rule_R6 five_am_row clock_dec22"
    "\<not> rule_matches app_rule_R7 five_am_row clock_dec22"
    "\<not> rule_matches app_rule_R8 five_am_row clock_dec22"
    "\<not> rule_matches app_rule_R9 five_am_row clock_dec22"
    by (simp_all add: app_pure_matches app_R7_matches [OF z] five_am_row_fields
        five_am_row_time five_am_row_weekday hour_mk_datetime
        shd_clock_dec22 elapsed_two_years)
  show ?thesis
    unfolding create_fraud_rules_def using m by simp
qed

subsection \<open>Status and details of a result\<close>

lemma evaluate_transactions_loop_status:
  assumes "evaluate_transactions_loop txs rs acc c = (Inr results, c')"
    and "list_all status_consistent acc"
  shows "length results = length acc + length txs \<and> list_all status_consistent results"
  using assms
proof (induction txs arbitrary: acc c)
  case Nil
  then show ?case by simp
next
  case (Cons tx txs)
  from Cons.prems(1) obtain ms c1 where
    loop: "rules_loop rs tx [] c = (Inr ms, c1)"
    by (auto split: prod.splits sum.splits)
  let ?res = "JDict [(''id'', JStr (id_tx tx)),
                     (''status'', JStr (if ms \<noteq> [] then ''flagged'' else ''clear'')),
                     (''details'', JList ms),
                     (''weekday'', JStr (transaction_time_weekday tx)),
                     (''location'', JStr (location tx))]"
  have rest: "evaluate_transactions_loop txs rs (acc @ [?res]) c1 = (Inr results, c')"
    using Cons.prems(1) loop by simp
  have "status_consistent ?res"
    by (simp add: status_consistent_def)
  then have "list_all status_consistent (acc @ [?res])"
    using Cons.prems(2) by simp
  from Cons.IH [OF rest this] show ?case by simp
qed

text \<open>
  Claim C5. In the API, the status of the response is \<open>clear\<close> when the match sequence
  returned by \<open>check_fraud\<close> is empty and \<open>flagged\<close> when it is not. In the dashboard,
  the result of a transaction carries the match sequence of the rule loop as \<open>details\<close>,
  with status \<open>clear\<close> when it is empty and \<open>flagged\<close> otherwise; and every result of
  a batch, for any rule list, is consistent in this way.
\<close>

theorem status_clear_iff_no_match:
  "(fst (check_fraud fraud_detector t c) = Inr ms \<longrightarrow>
      (\<exists>resp. fst (check_transaction t c) = Inr resp
         \<and> field resp ''status'' = Some (JStr (if ms = [] then ''clear'' else ''flagged''))))
   \<and> (fst (rules_loop rs tx [] c) = Inr tx_results \<longrightarrow>
      (\<exists>res. fst (evaluate_transactions [tx] rs c) = Inr [res]
         \<and> field res ''details'' = Some (JList tx_results)
         \<and> field res ''status''
             = Some (JStr (if tx_results = [] then ''clear'' else ''flagged''))))
   \<and> (fst (evaluate_transactions txs rs c) = Inr results \<longrightarrow>
      length results = length txs \<and> list_all status_consistent results)"
proof (intro conjI impI)
  assume a: "fst (check_fraud fraud_detector t c) = Inr ms"
  then obtain c1 where "check_fraud fraud_detector t c = (Inr ms, c1)"
    by (cases "check_fraud fraud_detector t c") simp
  then show "\<exists>resp. fst (check_transaction t c) = Inr resp
         \<and> field resp ''status'' = Some (JStr (if ms = [] then ''clear'' else ''flagged''))"
    by (simp add: check_transaction_def)
next
  assume "fst (rules_loop rs tx [] c) = Inr tx_results"
  then obtain c1 where "rules_loop rs tx [] c = (Inr tx_results, c1)"
    by (cases "rules_loop rs tx [] c") simp
  then show "\<exists>res. fst (evaluate_transactions [tx] rs c) = Inr [res]
         \<and> field res ''details'' = Some (JList tx_results)
         \<and> field res ''status''
             = Some (JStr (if tx_results = [] then ''clear'' else ''flagged''))"
    by (simp add: evaluate_transactions_def)
next
  assume "fst (evaluate_transactions txs rs c) = Inr results"
  then obtain c1 where "evaluate_transactions_loop txs rs [] c = (Inr results, c1)"
    unfolding evaluate_transactions_def
    by (cases "evaluate_transactions_loop txs rs [] c") simp
  from evaluate_transactions_loop_status [OF this]
  show "length results = length txs" and "list_all status_consistent results"
    by simp_all
qed

lemma check_fraud_unverified_sunday:
  "check_fraud fraud_detector unverified_sunday_tx clock_dec22 =
     (Inr [JDict [(''action'', JStr ''reject''), (''reason'', JStr ''Unverified account'')],
           JDict [(''action'', JStr ''reject''),
                  (''reason'', JStr ''Transaction during restricted period'')]],
      stl clock_dec22)"
proof -
  have z: "tzinfo (account_creation_date unverified_sunday_tx) = None"
    by (simp only: unverified_sunday_tx_fields tzinfo_mk_datetime)
  show ?thesis
    by (simp add: check_fraud_naive [OF z] unverified_sunday_matches api_entries)
qed

lemma rules_loop_five_am_row:
  "rules_loop create_fraud_rules five_am_row [] clock_dec22 = (Inr [], stl clock_dec22)"
proof -
  have z: "tzinfo (account_creation_date five_am_row) = None"
    by (simp only: five_am_row_fields tzinfo_mk_datetime)
  show ?thesis
    by (simp add: app_rules_loop_naive [OF z] five_am_row_matches)
qed

lemma evaluate_transactions_five_am_row:
  "evaluate_transactions [five_am_row] create_fraud_rules clock_dec22 =
     (Inr [JDict [(''id'', JStr ''TXN003''), (''status'', JStr ''clear''),
                  (''details'', JList []), (''weekday'', JStr ''Wednesday''),
                  (''location'', JStr ''Accra, Ghana'')]], stl clock_dec22)"
  by (simp add: evaluate_transactions_def rules_loop_five_am_row five_am_row_fields
      five_am_row_weekday)

text \<open>
  C5 at a flagged API transaction and at a dashboard row that matches nothing.
\<close>

theorem status_clear_iff_no_match_witness:
  "(\<exists>resp. fst (check_transaction unverified_sunday_tx clock_dec22) = Inr resp
       \<and> field resp ''status'' = Some (JStr ''flagged''))
   \<and> (\<exists>res. fst (evaluate_transactions [five_am_row] create_fraud_rules clock_dec22) = Inr [res]
       \<and> field res ''details'' = Some (JList [])
       \<and> field res ''status'' = Some (JStr ''clear''))
   \<and> list_all status_consistent
        [JDict [(''id'', JStr ''TXN003''), (''status'', JStr ''clear''),
                (''details'', JList []), (''weekday'', JStr ''Wednesday''),
                (''location'', JStr ''Accra, Ghana'')]]"
  using status_clear_iff_no_match
    [where t = unverified_sunday_tx and c = clock_dec22
       and ms = "[JDict [(''action'', JStr ''reject''), (''reason'', JStr ''Unverified account'')],
           JDict [(''action'', JStr ''reject''),
                  (''reason'', JStr ''Transaction during restricted period'')]]"
       and rs = create_fraud_rules and tx = five_am_row and tx_results = "[]"
       and txs = "[five_am_row]"
       and results = "[JDict [(''id'', JStr ''TXN003''), (''status'', JStr ''clear''),
                (''details'', JList []), (''weekday'', JStr ''Wednesday''),
                (''location'', JStr ''Accra, Ghana'')]]"]
  by (simp add: check_fraud_unverified_sunday rules_loop_five_am_row
      evaluate_transactions_five_am_row)

lemma api_entries_are_details:
  assumes "r \<in> set create_rules"
  shows "is_detail (match_entry r)"
  using assms unfolding create_rules_def by (auto simp: api_entries)

lemma R7_in_rules: "rule_R7 \<in> set (rules fraud_detector)"
  by (simp add: fraud_detector_def create_rules_def)

lemma rules_fraud_detector: "rules fraud_detector = create_rules"
  by (simp add: fraud_detector_def)

text \<open>
  Claim C3, as amended. For a transaction on which every rule evaluates to \<open>False\<close>, the
  endpoint answers with the transaction id, the status \<open>clear\<close> and, as \<open>details\<close>, the
  string \<open>No fraud detected\<close>. When some rule matches (and R7 can be evaluated), it answers
  with the status \<open>flagged\<close> and, as \<open>details\<close>, a non-empty list of entries
  \<open>{action, reason}\<close> whose action is \<open>review\<close> or \<open>reject\<close>.
\<close>

theorem clear_response_carries_message:
  "((\<forall>r\<in>set (rules fraud_detector). fst (condition r t c) = Inr False) \<longrightarrow>
      fst (check_transaction t c) =
        Inr (JDict [(''transaction_id'', JStr (id_tx t)), (''status'', JStr ''clear''),
                    (''details'', JStr ''No fraud detected'')]))
   \<and> (tzinfo (account_creation_date t) = None
        \<and> (\<exists>r\<in>set (rules fraud_detector). rule_matches r t c) \<longrightarrow>
      (\<exists>ms. fst (check_transaction t c) =
          Inr (JDict [(''transaction_id'', JStr (id_tx t)), (''status'', JStr ''flagged''),
                      (''details'', JList ms)])
         \<and> ms \<noteq> [] \<and> list_all is_detail ms))"
proof (intro conjI impI)
  assume a: "\<forall>r\<in>set (rules fraud_detector). fst (condition r t c) = Inr False"
  then have "fst (recent_account_cond t c) = Inr False"
    using R7_in_rules by (auto simp: rule_R7_def)
  then have z: "tzinfo (account_creation_date t) = None"
    using recent_aware [of t c] by (cases "tzinfo (account_creation_date t)") auto
  have "filter (\<lambda>r. rule_matches r t c) create_rules = []"
    using a by (auto simp: filter_empty_conv rule_matches_def rules_fraud_detector)
  then show "fst (check_transaction t c) =
        Inr (JDict [(''transaction_id'', JStr (id_tx t)), (''status'', JStr ''clear''),
                    (''details'', JStr ''No fraud detected'')])"
    by (simp add: check_transaction_def check_fraud_naive [OF z])
next
  assume a: "tzinfo (account_creation_date t) = None
        \<and> (\<exists>r\<in>set (rules fraud_detector). rule_matches r t c)"
  let ?ms = "map match_entry (filter (\<lambda>r. rule_matches r t c) create_rules)"
  have ne: "?ms \<noteq> []"
    using a by (auto simp: filter_empty_conv rules_fraud_detector)
  have det: "list_all is_detail ?ms"
    by (simp add: list_all_iff api_entries_are_details)
  have "fst (check_transaction t c) =
          Inr (JDict [(''transaction_id'', JStr (id_tx t)), (''status'', JStr ''flagged''),
                      (''details'', JList ?ms)])"
    using a ne by (simp add: check_transaction_def check_fraud_naive)
  with ne det show "\<exists>ms. fst (check_transaction t c) =
          Inr (JDict [(''transaction_id'', JStr (id_tx t)), (''status'', JStr ''flagged''),
                      (''details'', JList ms)])
         \<and> ms \<noteq> [] \<and> list_all is_detail ms"
    by blast
qed

subsection \<open>Dependence on the clock, and totality\<close>

lemma weekday_2024_11_13: "weekday (mk_datetime 2024 11 13 12 0 0) = 2"
  by (simp add: weekday_def calendar_defs)

lemma benign_all_false:
  "\<forall>r\<in>set (rules fraud_detector). fst (condition r benign_tx clock_dec22) = Inr False"
proof -
  have z: "tzinfo (account_creation_date benign_tx) = None"
    by (simp only: benign_tx_fields tzinfo_mk_datetime)
  have "fst (condition rule_R1 benign_tx clock_dec22) = Inr False"
    "fst (condition rule_R2 benign_tx clock_dec22) = Inr False"
    "fst (condition rule_R3 benign_tx clock_dec22) = Inr False"
    "fst (condition rule_R4 benign_tx clock_dec22) = Inr False"
    "fst (condition rule_R5 benign_tx clock_dec22) = Inr False"
    "fst (condition rule_R6 benign_tx clock_dec22) = Inr False"
    "fst (condition rule_R7 benign_tx clock_dec22) = Inr False"
    "fst (condition rule_R8 benign_tx clock_dec22) = Inr False"
    "fst (condition rule_R9 benign_tx clock_dec22) = Inr False"
    by (simp_all add: api_rule_defs pure_cond_def recent_naive [OF z] benign_tx_fields
        shd_clock_dec22 elapsed_two_years noon_not_late weekday_2024_11_13)
  then show ?thesis
    by (simp add: rules_fraud_detector create_rules_def)
qed

lemma check_transaction_benign:
  "fst (check_transaction benign_tx clock_dec22) =
     Inr (JDict [(''transaction_id'', JStr ''TXN002''), (''status'', JStr ''clear''),
                 (''details'', JStr ''No fraud detected'')])"
proof -
  have z: "tzinfo (account_creation_date benign_tx) = None"
    by (simp only: benign_tx_fields tzinfo_mk_datetime)
  have "filter (\<lambda>r. rule_matches r benign_tx clock_dec22) create_rules = []"
    using benign_all_false
    by (auto simp: filter_empty_conv rule_matches_def rules_fraud_detector)
  then show ?thesis
    by (simp add: check_transaction_def check_fraud_naive [OF z] benign_tx_fields)
qed

lemma check_fraud_benign: "fst (check_fraud fraud_detector benign_tx clock_dec22) = Inr []"
proof -
  have z: "tzinfo (account_creation_date benign_tx) = None"
    by (simp only: benign_tx_fields tzinfo_mk_datetime)
  have "filter (\<lambda>r. rule_matches r benign_tx clock_dec22) create_rules = []"
    using benign_all_false
    by (auto simp: filter_empty_conv rule_matches_def rules_fraud_detector)
  then show ?thesis
    by (simp add: check_fraud_naive [OF z])
qed

text \<open>
  Claim C3 as stated fails: the benign transaction matches no rule and the response is not
  the object whose \<open>details\<close> is the empty list.
\<close>

theorem clear_details_counterexample:
  "fst (check_fraud fraud_detector benign_tx clock_dec22) = Inr []
   \<and> fst (check_transaction benign_tx clock_dec22) \<noteq>
       Inr (JDict [(''transaction_id'', JStr (id_tx benign_tx)), (''status'', JStr ''clear''),
                   (''details'', JList [])])"
  by (simp add: check_fraud_benign check_transaction_benign)

text \<open>
  The amended C3 at the benign transaction and at the unverified Sunday transaction.
\<close>

theorem clear_response_carries_message_witness:
  "fst (check_transaction benign_tx clock_dec22) =
        Inr (JDict [(''transaction_id'', JStr (id_tx benign_tx)), (''status'', JStr ''clear''),
                    (''details'', JStr ''No fraud detected'')])
   \<and> (\<exists>ms. fst (check_transaction unverified_sunday_tx clock_dec22) =
          Inr (JDict [(''transaction_id'', JStr (id_tx unverified_sunday_tx)),
                      (''status'', JStr ''flagged''), (''details'', JList ms)])
         \<and> ms \<noteq> [] \<and> list_all is_detail ms)"
proof -
  have z: "tzinfo (account_creation_date unverified_sunday_tx) = None"
    by (simp only: unverified_sunday_tx_fields tzinfo_mk_datetime)
  have m: "\<exists>r\<in>set (rules fraud_detector). rule_matches r unverified_sunday_tx clock_dec22"
    using unverified_sunday_tx_fields(9)
    by (auto simp: rules_fraud_detector create_rules_def api_pure_matches)
  show ?thesis
    using clear_response_carries_message [of benign_tx clock_dec22]
      clear_response_carries_message [of unverified_sunday_tx clock_dec22]
      benign_all_false z m
    by blast
qed

lemma recent_same_reading:
  "shd c1 = shd c2 \<Longrightarrow> fst (recent_account_cond t c1) = fst (recent_account_cond t c2)"
  by (simp add: recent_account_cond_def datetime_now_def split: sum.splits)

lemma api_matches_same_reading:
  assumes "shd c1 = shd c2" and "r \<in> set create_rules"
  shows "rule_matches r t c1 = rule_matches r t c2"
proof -
  have r7: "rule_matches rule_R7 t c1 = rule_matches rule_R7 t c2"
    using recent_same_reading [OF assms(1), of t] by (simp add: rule_matches_def rule_R7_def)
  show ?thesis
    using assms(2) r7 unfolding create_rules_def by (auto simp: api_pure_matches)
qed

text \<open>
  Claim C9. Two evaluations of one transaction under clocks that give the same reading
  return the same result, from \<open>check_fraud\<close> and from the endpoint: the result depends on
  the clock through the one reading taken by R7 only.
\<close>

theorem evaluation_determined_by_transaction_and_now:
  "shd c1 = shd c2 \<longrightarrow>
     fst (check_fraud fraud_detector t c1) = fst (check_fraud fraud_detector t c2)
     \<and> fst (check_transaction t c1) = fst (check_transaction t c2)"
proof
  assume s: "shd c1 = shd c2"
  have f: "filter (\<lambda>r. rule_matches r t c1) create_rules
         = filter (\<lambda>r. rule_matches r t c2) create_rules"
    by (rule filter_cong) (simp_all add: api_matches_same_reading [OF s])
  have cf: "fst (check_fraud fraud_detector t c1) = fst (check_fraud fraud_detector t c2)"
  proof (cases "tzinfo (account_creation_date t)")
    case None
    then show ?thesis by (simp add: check_fraud_naive f)
  next
    case (Some z)
    then show ?thesis by (simp add: check_fraud_aware)
  qed
  have ct: "fst (check_transaction t c) =
      (case fst (check_fraud fraud_detector t c) of
         Inl e \<Rightarrow> Inl e
       | Inr fraud_results \<Rightarrow>
           if fraud_results = []
           then Inr (JDict [(''transaction_id'', JStr (id_tx t)), (''status'', JStr ''clear''),
                            (''details'', JStr ''No fraud detected'')])
           else Inr (JDict [(''transaction_id'', JStr (id_tx t)), (''status'', JStr ''flagged''),
                            (''details'', JList fraud_results)]))" for c
    by (simp add: check_transaction_def split: prod.splits sum.splits)
  show "fst (check_fraud fraud_detector t c1) = fst (check_fraud fraud_detector t c2)
     \<and> fst (check_transaction t c1) = fst (check_transaction t c2)"
    using cf by (simp add: ct)
qed

text \<open>
  C9 at the scenario transaction and two clocks that differ after their first reading.
\<close>

theorem evaluation_determined_by_transaction_and_now_witness:
  "shd clock_dec22 = shd clock_dec22_then_later
   \<and> clock_dec22 \<noteq> clock_dec22_then_later
   \<and> fst (check_fraud fraud_detector scenario_tx clock_dec22)
       = fst (check_fraud fraud_detector scenario_tx clock_dec22_then_later)
   \<and> fst (check_transaction scenario_tx clock_dec22)
       = fst (check_transaction scenario_tx clock_dec22_then_later)"
proof -
  have s: "shd clock_dec22 = shd clock_dec22_then_later"
    by (simp only: shd_clock_dec22 shd_clock_dec22_then_later)
  have "shd (stl clock_dec22) \<noteq> shd (stl clock_dec22_then_later)"
    by (simp add: clock_dec22_def clock_dec22_then_later_def mk_datetime_def)
  then have d: "clock_dec22 \<noteq> clock_dec22_then_later"
    by auto
  show ?thesis
    using evaluation_determined_by_transaction_and_now
      [of clock_dec22 clock_dec22_then_later scenario_tx] s d
    by blast
qed

lemma nine_field_request_lookup:
  "nine_field_request ''id'' = Some (RStr ''TXN002'')"
  "nine_field_request ''amount'' = Some (RInt 100)"
  "nine_field_request ''payment_channel'' = Some (RStr ''atm'')"
  "nine_field_request ''device_type'' = Some (RStr ''Android'')"
  "nine_field_request ''transaction_time'' = Some (RDatetime (mk_datetime 2024 11 13 12 0 0))"
  "nine_field_request ''location'' = Some (RStr ''Accra, Ghana'')"
  "nine_field_request ''high_value_tx_count'' = Some (RInt 0)"
  "nine_field_request ''account_creation_date''
     = Some (RDatetime (mk_datetime 2022 12 22 12 0 0))"
  "nine_field_request ''is_verified'' = Some (RBool True)"
  "nine_field_request ''transaction_time_weekday'' = None"
  by (simp_all add: nine_field_request_def)

lemma ten_field_request_lookup:
  "ten_field_request ''id'' = Some (RStr ''TXN002'')"
  "ten_field_request ''amount'' = Some (RInt 100)"
  "ten_field_request ''payment_channel'' = Some (RStr ''atm'')"
  "ten_field_request ''device_type'' = Some (RStr ''Android'')"
  "ten_field_request ''transaction_time'' = Some (RDatetime (mk_datetime 2024 11 13 12 0 0))"
  "ten_field_request ''location'' = Some (RStr ''Accra, Ghana'')"
  "ten_field_request ''high_value_tx_count'' = Some (RInt 0)"
  "ten_field_request ''account_creation_date''
     = Some (RDatetime (mk_datetime 2022 12 22 12 0 0))"
  "ten_field_request ''is_verified'' = Some (RBool True)"
  "ten_field_request ''transaction_time_weekday''
     = Some (RDatetime (mk_datetime 2024 11 13 12 0 0))"
  by (simp_all add: ten_field_request_def nine_field_request_lookup)

lemma aware_request_lookup:
  "aware_request ''id'' = Some (RStr ''TXN002'')"
  "aware_request ''amount'' = Some (RInt 100)"
  "aware_request ''payment_channel'' = Some (RStr ''atm'')"
  "aware_request ''device_type'' = Some (RStr ''Android'')"
  "aware_request ''transaction_time'' = Some (RDatetime (mk_datetime 2024 11 13 12 0 0))"
  "aware_request ''location'' = Some (RStr ''Accra, Ghana'')"
  "aware_request ''high_value_tx_count'' = Some (RInt 0)"
  "aware_request ''account_creation_date''
     = Some (RDatetime ((mk_datetime 2022 12 22 12 0 0)\<lparr>tzinfo := Some 0\<rparr>))"
  "aware_request ''is_verified'' = Some (RBool True)"
  "aware_request ''transaction_time_weekday''
     = Some (RDatetime (mk_datetime 2024 11 13 12 0 0))"
  by (simp_all add: aware_request_def ten_field_request_lookup)

lemma valid_examples:
  "valid_datetime (mk_datetime 2024 11 13 12 0 0)"
  "valid_datetime (mk_datetime 2022 12 22 12 0 0)"
  "valid_datetime ((mk_datetime 2022 12 22 12 0 0)\<lparr>tzinfo := Some 0\<rparr>)"
  "valid_datetime (mk_datetime 2024 12 22 23 30 0)"
  "valid_datetime (mk_datetime 2024 12 22 23 30 1)"
  by (simp_all add: valid_datetime_def mk_datetime_def days_in_month_def)

lemma aware_tx_eq:
  "aware_tx = \<lparr>id_tx = ''TXN002'', amount = FloatVal 100, payment_channel = ''atm'',
      device_type = ''Android'', transaction_time = mk_datetime 2024 11 13 12 0 0,
      location = ''Accra, Ghana'', high_value_tx_count = 0,
      account_creation_date = (mk_datetime 2022 12 22 12 0 0)\<lparr>tzinfo := Some 0\<rparr>,
      is_verified = True, transaction_time_weekday = mk_datetime 2024 11 13 12 0 0\<rparr>"
  by (simp add: aware_tx_def benign_tx_def)

lemma aware_request_validates:
  "Transaction_validate_api exact_values aware_request = Inr aware_tx"
  unfolding Transaction_validate_api_def Transaction_validate_def aware_tx_eq
  by (simp add: get_field_def exact_values_def aware_request_lookup valid_examples)

lemma aware_tx_tzinfo: "tzinfo (account_creation_date aware_tx) = Some 0"
  by (simp add: aware_tx_eq)

text \<open>
  Claim C8 as stated fails: a request whose \<open>account_creation_date\<close> carries the offset
  \<open>+00:00\<close> validates, and evaluating the resulting transaction raises \<open>TypeError\<close> in
  R7, where the naive \<open>datetime.now()\<close> is subtracted from.
\<close>

theorem aware_account_date_counterexample:
  "Transaction_validate_api exact_values aware_request = Inr aware_tx
   \<and> fst (check_fraud fraud_detector aware_tx clock_dec22) = Inl TypeError
   \<and> fst (check_transaction aware_tx clock_dec22) = Inl TypeError"
proof -
  have "check_fraud fraud_detector aware_tx clock_dec22 = (Inl TypeError, stl clock_dec22)"
    by (rule check_fraud_aware) (simp add: aware_tx_tzinfo)
  then show ?thesis
    by (simp add: check_transaction_def aware_request_validates)
qed

text \<open>
  Claim C8, as amended. For a transaction whose \<open>account_creation_date\<close> is naive (it
  carries no UTC offset), every rule predicate returns a boolean and the evaluator and the
  endpoint return a result.
\<close>

theorem evaluation_total_on_naive_account_date:
  "tzinfo (account_creation_date t) = None \<longrightarrow>
     (\<forall>r\<in>set (rules fraud_detector). \<exists>b. fst (condition r t c) = Inr b)
     \<and> (\<exists>ms. fst (check_fraud fraud_detector t c) = Inr ms)
     \<and> (\<exists>resp. fst (check_transaction t c) = Inr resp)"
proof (intro impI conjI)
  assume z: "tzinfo (account_creation_date t) = None"
  show "\<forall>r\<in>set (rules fraud_detector). \<exists>b. fst (condition r t c) = Inr b"
    unfolding rules_fraud_detector create_rules_def
    by (simp add: api_rule_defs pure_cond_def recent_naive [OF z])
  show "\<exists>ms. fst (check_fraud fraud_detector t c) = Inr ms"
    by (simp add: check_fraud_naive [OF z])
  show "\<exists>resp. fst (check_transaction t c) = Inr resp"
    by (simp add: check_transaction_def check_fraud_naive [OF z])
qed

text \<open>
  The amended C8 at the benign transaction.
\<close>

theorem evaluation_total_on_naive_account_date_witness:
  "tzinfo (account_creation_date benign_tx) = None
   \<and> (\<exists>b. fst (condition rule_R7 benign_tx clock_dec22) = Inr b)
   \<and> (\<exists>ms. fst (check_fraud fraud_detector benign_tx clock_dec22) = Inr ms)
   \<and> (\<exists>resp. fst (check_transaction benign_tx clock_dec22) = Inr resp)"
proof -
  have z: "tzinfo (account_creation_date benign_tx) = None"
    by (simp only: benign_tx_fields tzinfo_mk_datetime)
  show ?thesis
    using evaluation_total_on_naive_account_date [of benign_tx clock_dec22] z R7_in_rules
    by blast
qed

subsection \<open>Validation\<close>

lemma and_field_Inr_iff:
  "and_field f x = Inr y \<longleftrightarrow> (\<exists>g v. f = Inr g \<and> x = Inr v \<and> y = g v)"
  by (cases f; cases x) auto

lemma get_field_Inr_iff: "get_field validator obj k = Inr v \<longleftrightarrow> supplies validator obj k v"
  by (simp add: get_field_def supplies_def split: option.splits)

lemma get_field_missing: "obj k = None \<Longrightarrow> get_field validator obj k = Inl (Missing k)"
  by (simp add: get_field_def)

lemma Transaction_validate_iff:
  "Transaction_validate lib wv obj = Inr t \<longleftrightarrow>
     supplies (str_validator lib) obj ''id'' (id_tx t)
     \<and> supplies (float_validator lib) obj ''amount'' (amount t)
     \<and> supplies (str_validator lib) obj ''payment_channel'' (payment_channel t)
     \<and> supplies (str_validator lib) obj ''device_type'' (device_type t)
     \<and> supplies (datetime_validator lib) obj ''transaction_time'' (transaction_time t)
     \<and> supplies (str_validator lib) obj ''location'' (location t)
     \<and> supplies (int_validator lib) obj ''high_value_tx_count'' (high_value_tx_count t)
     \<and> supplies (datetime_validator lib) obj ''account_creation_date'' (account_creation_date t)
     \<and> supplies (bool_validator lib) obj ''is_verified'' (is_verified t)
     \<and> supplies wv obj ''transaction_time_weekday'' (transaction_time_weekday t)"
proof -
  have c: "(case x of Inl es \<Rightarrow> Inl (ValidationError es) | Inr u \<Rightarrow> Inr u) = Inr t
      \<longleftrightarrow> x = Inr t" for x :: "field_error list + 'a Transaction"
    by (cases x) auto
  show ?thesis
  proof
    assume "Transaction_validate lib wv obj = Inr t"
    then show "supplies (str_validator lib) obj ''id'' (id_tx t)
     \<and> supplies (float_validator lib) obj ''amount'' (amount t)
     \<and> supplies (str_validator lib) obj ''payment_channel'' (payment_channel t)
     \<and> supplies (str_validator lib) obj ''device_type'' (device_type t)
     \<and> supplies (datetime_validator lib) obj ''transaction_time'' (transaction_time t)
     \<and> supplies (str_validator lib) obj ''location'' (location t)
     \<and> supplies (int_validator lib) obj ''high_value_tx_count'' (high_value_tx_count t)
     \<and> supplies (datetime_validator lib) obj ''account_creation_date'' (account_creation_date t)
     \<and> supplies (bool_validator lib) obj ''is_verified'' (is_verified t)
     \<and> supplies wv obj ''transaction_time_weekday'' (transaction_time_weekday t)"
      unfolding Transaction_validate_def c and_field_Inr_iff get_field_Inr_iff
      by (cases t) auto
  next
    assume "supplies (str_validator lib) obj ''id'' (id_tx t)
     \<and> supplies (float_validator lib) obj ''amount'' (amount t)
     \<and> supplies (str_validator lib) obj ''payment_channel'' (payment_channel t)
     \<and> supplies (str_validator lib) obj ''device_type'' (device_type t)
     \<and> supplies (datetime_validator lib) obj ''transaction_time'' (transaction_time t)
     \<and> supplies (str_validator lib) obj ''location'' (location t)
     \<and> supplies (int_validator lib) obj ''high_value_tx_count'' (high_value_tx_count t)
     \<and> supplies (datetime_validator lib) obj ''account_creation_date'' (account_creation_date t)
     \<and> supplies (bool_validator lib) obj ''is_verified'' (is_verified t)
     \<and> supplies wv obj ''transaction_time_weekday'' (transaction_time_weekday t)"
    then have g: "get_field (str_validator lib) obj ''id'' = Inr (id_tx t)"
      "get_field (float_validator lib) obj ''amount'' = Inr (amount t)"
      "get_field (str_validator lib) obj ''payment_channel'' = Inr (payment_channel t)"
      "get_field (str_validator lib) obj ''device_type'' = Inr (device_type t)"
      "get_field (datetime_validator lib) obj ''transaction_time'' = Inr (transaction_time t)"
      "get_field (str_validator lib) obj ''location'' = Inr (location t)"
      "get_field (int_validator lib) obj ''high_value_tx_count'' = Inr (high_value_tx_count t)"
      "get_field (datetime_validator lib) obj ''account_creation_date''
         = Inr (account_creation_date t)"
      "get_field (bool_validator lib) obj ''is_verified'' = Inr (is_verified t)"
      "get_field wv obj ''transaction_time_weekday'' = Inr (transaction_time_weekday t)"
      by (simp_all add: get_field_Inr_iff)
    show "Transaction_validate lib wv obj = Inr t"
      unfolding Transaction_validate_def g by simp
  qed
qed

lemma and_field_Inl:
  "\<exists>es. (case and_field f (Inl e) of Inl es \<Rightarrow> Inl (ValidationError es) | Inr t \<Rightarrow> Inr t)
          = Inl (ValidationError es) \<and> e \<in> set es"
  by (cases f) auto

lemma Transaction_validate_missing_weekday:
  assumes "obj ''transaction_time_weekday'' = None"
  shows "\<exists>es. Transaction_validate lib wv obj = Inl (ValidationError es)
           \<and> Missing ''transaction_time_weekday'' \<in> set es"
proof -
  have g: "get_field wv obj ''transaction_time_weekday'' = Inl (Missing ''transaction_time_weekday'')"
    using assms by (simp add: get_field_def)
  show ?thesis
    unfolding Transaction_validate_def g by (rule and_field_Inl)
qed

text \<open>
  Claim C2, as amended. Whatever the library's validators are, a request validates to a
  transaction exactly when it supplies each of the ten declared fields with a value that
  the validator of the field's type accepts: the nine fields of the data model and
  \<open>transaction_time_weekday\<close>, a timestamp in the API and a string in the dashboard. No
  other key is looked at, none of the ten has a default, and a request without
  \<open>transaction_time_weekday\<close> is rejected with that field reported missing.
\<close>

theorem validation_needs_the_ten_declared_fields:
  "(Transaction_validate_api lib obj = Inr t \<longleftrightarrow>
     supplies (str_validator lib) obj ''id'' (id_tx t)
     \<and> supplies (float_validator lib) obj ''amount'' (amount t)
     \<and> supplies (str_validator lib) obj ''payment_channel'' (payment_channel t)
     \<and> supplies (str_validator lib) obj ''device_type'' (device_type t)
     \<and> supplies (datetime_validator lib) obj ''transaction_time'' (transaction_time t)
     \<and> supplies (str_validator lib) obj ''location'' (location t)
     \<and> supplies (int_validator lib) obj ''high_value_tx_count'' (high_value_tx_count t)
     \<and> supplies (datetime_validator lib) obj ''account_creation_date'' (account_creation_date t)
     \<and> supplies (bool_validator lib) obj ''is_verified'' (is_verified t)
     \<and> supplies (datetime_validator lib) obj ''transaction_time_weekday''
          (transaction_time_weekday t))
   \<and> (Transaction_validate_app lib row = Inr t' \<longleftrightarrow>
     supplies (str_validator lib) row ''id'' (id_tx t')
     \<and> supplies (float_validator lib) row ''amount'' (amount t')
     \<and> supplies (str_validator lib) row ''payment_channel'' (payment_channel t')
     \<and> supplies (str_validator lib) row ''device_type'' (device_type t')
     \<and> supplies (datetime_validator lib) row ''transaction_time'' (transaction_time t')
     \<and> supplies (str_validator lib) row ''location'' (location t')
     \<and> supplies (int_validator lib) row ''high_value_tx_count'' (high_value_tx_count t')
     \<and> supplies (datetime_validator lib) row ''account_creation_date'' (account_creation_date t')
     \<and> supplies (bool_validator lib) row ''is_verified'' (is_verified t')
     \<and> supplies (str_validator lib) row ''transaction_time_weekday'' (transaction_time_weekday t'))
   \<and> (short ''transaction_time_weekday'' = None \<longrightarrow>
        (\<exists>es. Transaction_validate_api lib short = Inl (ValidationError es)
           \<and> Missing ''transaction_time_weekday'' \<in> set es)
        \<and> (\<exists>es. Transaction_validate_app lib short = Inl (ValidationError es)
           \<and> Missing ''transaction_time_weekday'' \<in> set es))"
  unfolding Transaction_validate_api_def Transaction_validate_app_def
  using Transaction_validate_iff [of lib "datetime_validator lib" obj t]
    Transaction_validate_iff [of lib "str_validator lib" row t']
    Transaction_validate_missing_weekday [of short lib "datetime_validator lib"]
    Transaction_validate_missing_weekday [of short lib "str_validator lib"]
  by blast

lemma five_am_request_lookup:
  "five_am_request ''id'' = Some (RStr ''TXN003'')"
  "five_am_request ''amount'' = Some (RInt 100)"
  "five_am_request ''payment_channel'' = Some (RStr ''atm'')"
  "five_am_request ''device_type'' = Some (RStr ''Android'')"
  "five_am_request ''transaction_time'' = Some (RDatetime (mk_datetime 2024 11 13 5 0 0))"
  "five_am_request ''location'' = Some (RStr ''Accra, Ghana'')"
  "five_am_request ''high_value_tx_count'' = Some (RInt 0)"
  "five_am_request ''account_creation_date''
     = Some (RDatetime (mk_datetime 2022 12 22 12 0 0))"
  "five_am_request ''is_verified'' = Some (RBool True)"
  "five_am_request ''transaction_time_weekday'' = Some (RStr ''Wednesday'')"
  by (simp_all add: five_am_request_def nine_field_request_lookup)

lemma valid_five_am: "valid_datetime (mk_datetime 2024 11 13 5 0 0)"
  by (simp add: valid_datetime_def mk_datetime_def days_in_month_def)

lemma benign_tx_weekday_field: "transaction_time_weekday benign_tx = mk_datetime 2024 11 13 12 0 0"
  by (simp add: benign_tx_def)

lemma ten_field_request_supplies:
  "supplies (str_validator exact_values) ten_field_request ''id'' (id_tx benign_tx)"
  "supplies (float_validator exact_values) ten_field_request ''amount'' (amount benign_tx)"
  "supplies (str_validator exact_values) ten_field_request ''payment_channel'' (payment_channel benign_tx)"
  "supplies (str_validator exact_values) ten_field_request ''device_type'' (device_type benign_tx)"
  "supplies (datetime_validator exact_values) ten_field_request ''transaction_time''
     (transaction_time benign_tx)"
  "supplies (str_validator exact_values) ten_field_request ''location'' (location benign_tx)"
  "supplies (int_validator exact_values) ten_field_request ''high_value_tx_count''
     (high_value_tx_count benign_tx)"
  "supplies (datetime_validator exact_values) ten_field_request ''account_creation_date''
     (account_creation_date benign_tx)"
  "supplies (bool_validator exact_values) ten_field_request ''is_verified'' (is_verified benign_tx)"
  "supplies (datetime_validator exact_values) ten_field_request ''transaction_time_weekday''
     (transaction_time_weekday benign_tx)"
  by (simp_all add: supplies_def exact_values_def ten_field_request_lookup benign_tx_fields
      benign_tx_weekday_field valid_examples)

lemma five_am_request_supplies:
  "supplies (str_validator exact_values) five_am_request ''id'' (id_tx five_am_row)"
  "supplies (float_validator exact_values) five_am_request ''amount'' (amount five_am_row)"
  "supplies (str_validator exact_values) five_am_request ''payment_channel'' (payment_channel five_am_row)"
  "supplies (str_validator exact_values) five_am_request ''device_type'' (device_type five_am_row)"
  "supplies (datetime_validator exact_values) five_am_request ''transaction_time''
     (transaction_time five_am_row)"
  "supplies (str_validator exact_values) five_am_request ''location'' (location five_am_row)"
  "supplies (int_validator exact_values) five_am_request ''high_value_tx_count''
     (high_value_tx_count five_am_row)"
  "supplies (datetime_validator exact_values) five_am_request ''account_creation_date''
     (account_creation_date five_am_row)"
  "supplies (bool_validator exact_values) five_am_request ''is_verified'' (is_verified five_am_row)"
  "supplies (str_validator exact_values) five_am_request ''transaction_time_weekday''
     (transaction_time_weekday five_am_row)"
  by (simp_all add: supplies_def exact_values_def five_am_request_lookup five_am_row_fields
      five_am_row_time five_am_row_weekday valid_examples valid_five_am)

text \<open>
  The amended C2 at a request with all ten fields (API), at a dashboard row, and at the
  request with the nine fields only.
\<close>

theorem validation_needs_the_ten_declared_fields_witness:
  "Transaction_validate_api exact_values ten_field_request = Inr benign_tx
   \<and> Transaction_validate_app exact_values five_am_request = Inr five_am_row
   \<and> nine_field_request ''transaction_time_weekday'' = None
   \<and> (\<exists>es. Transaction_validate_api exact_values nine_field_request = Inl (ValidationError es)
           \<and> Missing ''transaction_time_weekday'' \<in> set es)
   \<and> (\<exists>es. Transaction_validate_app exact_values nine_field_request = Inl (ValidationError es)
           \<and> Missing ''transaction_time_weekday'' \<in> set es)"
  using validation_needs_the_ten_declared_fields
    [of exact_values ten_field_request benign_tx five_am_request five_am_row
       nine_field_request]
    ten_field_request_supplies five_am_request_supplies nine_field_request_lookup(10)
  by blast

text \<open>
  Claim C2 as stated fails: the request that supplies exactly the nine fields of the data
  model, each well-typed, does not validate in either file.
\<close>

theorem nine_fields_counterexample:
  "Transaction_validate_api exact_values nine_field_request
     = Inl (ValidationError [Missing ''transaction_time_weekday''])
   \<and> Transaction_validate_app exact_values nine_field_request
     = Inl (ValidationError [Missing ''transaction_time_weekday''])"
  unfolding Transaction_validate_api_def Transaction_validate_app_def Transaction_validate_def
  by (simp add: get_field_def exact_values_def nine_field_request_lookup valid_examples)

subsection \<open>The calendar: later dates have larger ordinals\<close>

lemma div_step:
  fixes y n :: int
  assumes "0 < n"
  shows "y div n = (y - 1) div n + (if y mod n = 0 then 1 else 0)"
proof (cases "y mod n = 0")
  case True
  have "y - 1 = n * (y div n - 1) + (n - 1)"
    using True mult_div_mod_eq [of n y] by (simp add: algebra_simps)
  then have "(y - 1) div n = y div n - 1"
    using assms by (intro int_div_pos_eq [where r = "n - 1"]) simp_all
  with True show ?thesis by simp
next
  case False
  have m: "0 \<le> y mod n" "y mod n < n" using assms by simp_all
  have "y - 1 = n * (y div n) + (y mod n - 1)"
    using mult_div_mod_eq [of n y] by (simp add: algebra_simps)
  then have "(y - 1) div n = y div n"
    using assms m False by (intro int_div_pos_eq [where r = "y mod n - 1"]) simp_all
  with False show ?thesis by simp
qed

lemma days_before_year_Suc: "days_before_year (y + 1) = days_before_year y + year_length y"
proof -
  have a: "y div 4 = (y - 1) div 4 + (if y mod 4 = 0 then 1 else 0)"
    by (rule div_step) simp
  have b: "y div 100 = (y - 1) div 100 + (if y mod 100 = 0 then 1 else 0)"
    by (rule div_step) simp
  have c: "y div 400 = (y - 1) div 400 + (if y mod 400 = 0 then 1 else 0)"
    by (rule div_step) simp
  have d1: "y mod 100 = 0" if "y mod 400 = 0"
  proof -
    have "(400::int) dvd y" using that by (simp add: dvd_eq_mod_eq_0)
    then have "(100::int) dvd y" by (rule dvd_trans [rotated]) simp
    then show ?thesis by (simp add: dvd_eq_mod_eq_0)
  qed
  have d2: "y mod 4 = 0" if "y mod 100 = 0"
  proof -
    have "(100::int) dvd y" using that by (simp add: dvd_eq_mod_eq_0)
    then have "(4::int) dvd y" by (rule dvd_trans [rotated]) simp
    then show ?thesis by (simp add: dvd_eq_mod_eq_0)
  qed
  have e: "days_before_year (y + 1) = y * 365 + y div 4 - y div 100 + y div 400"
    by (simp add: days_before_year_def)
  have f: "days_before_year y
      = (y - 1) * 365 + (y - 1) div 4 - (y - 1) div 100 + (y - 1) div 400"
    by (simp add: days_before_year_def Let_def)
  show ?thesis
  proof (cases "y mod 4 = 0")
    case False
    then have "y mod 100 \<noteq> 0" using d2 by auto
    then have "y mod 100 \<noteq> 0" "y mod 400 \<noteq> 0" using d1 by auto
    with False show ?thesis
      unfolding e f a b c year_length_def is_leap_def by simp
  next
    case y4: True
    show ?thesis
    proof (cases "y mod 100 = 0")
      case False
      then have "y mod 400 \<noteq> 0" using d1 by auto
      with False y4 show ?thesis
        unfolding e f a b c year_length_def is_leap_def by simp
    next
      case y100: True
      show ?thesis
      proof (cases "y mod 400 = 0")
        case True
        with y4 y100 show ?thesis
          unfolding e f a b c year_length_def is_leap_def by simp
      next
        case False
        with y4 y100 show ?thesis
          unfolding e f a b c year_length_def is_leap_def by simp
      qed
    qed
  qed
qed

lemma year_length_pos: "0 < year_length y"
  by (simp add: year_length_def)

lemma days_before_year_mono:
  assumes "y1 < y2"
  shows "days_before_year y1 + year_length y1 \<le> days_before_year y2"
proof -
  have "y1 + 1 \<le> y2" using assms by simp
  then show ?thesis
  proof (induction y2 rule: int_ge_induct)
    case base
    then show ?case by (simp add: days_before_year_Suc)
  next
    case (step i)
    then show ?case
      using days_before_year_Suc [of i] year_length_pos [of i] by linarith
  qed
qed

lemma days_before_month_Suc:
  assumes "1 \<le> m" and "m \<le> 11"
  shows "days_before_month y (m + 1) = days_before_month y m + days_in_month y m"
proof -
  have "m = 1 \<or> m = 2 \<or> m = 3 \<or> m = 4 \<or> m = 5 \<or> m = 6 \<or> m = 7 \<or> m = 8 \<or> m = 9
      \<or> m = 10 \<or> m = 11"
    using assms by arith
  then show ?thesis
    by (elim disjE) (simp_all add: days_before_month_def days_in_month_def)
qed

lemma days_before_month_last:
  "days_before_month y 12 + days_in_month y 12 = year_length y"
  by (simp add: days_before_month_def days_in_month_def year_length_def)

lemma days_in_month_pos: "0 < days_in_month y m"
  by (simp add: days_in_month_def)

lemma days_before_month_mono:
  assumes "1 \<le> m1" and "m1 < m2" and "m2 \<le> 12"
  shows "days_before_month y m1 + days_in_month y m1 \<le> days_before_month y m2"
proof -
  have "m1 + 1 \<le> m2" using assms(2) by simp
  then have "m2 \<le> 12 \<longrightarrow> days_before_month y m1 + days_in_month y m1 \<le> days_before_month y m2"
  proof (induction m2 rule: int_ge_induct)
    case base
    then show ?case using assms(1) by (simp add: days_before_month_Suc)
  next
    case (step i)
    show ?case
    proof
      assume i: "i + 1 \<le> 12"
      then have "days_before_month y (i + 1) = days_before_month y i + days_in_month y i"
        using step.hyps assms(1) by (intro days_before_month_Suc) linarith+
      moreover have "days_before_month y m1 + days_in_month y m1 \<le> days_before_month y i"
        using step.IH i by simp
      ultimately show "days_before_month y m1 + days_in_month y m1 \<le> days_before_month y (i + 1)"
        using days_in_month_pos [of y i] by linarith
    qed
  qed
  then show ?thesis using assms(3) by simp
qed

lemma day_of_year_le:
  assumes "1 \<le> m" and "m \<le> 12" and "d \<le> days_in_month y m"
  shows "days_before_month y m + d \<le> year_length y"
proof (cases "m = 12")
  case True
  then show ?thesis using assms(3) days_before_month_last [of y] by simp
next
  case False
  then have "days_before_month y m + days_in_month y m \<le> days_before_month y 12"
    using assms by (intro days_before_month_mono) simp_all
  then show ?thesis
    using assms(3) days_before_month_last [of y] days_in_month_pos [of y 12] by linarith
qed

lemma days_before_month_nonneg: "0 \<le> days_before_month y m"
  by (simp add: days_before_month_def)

text \<open>The proleptic ordinal is strictly monotone in the order of valid dates.\<close>

lemma toordinal_mono:
  assumes "valid_datetime a" and "valid_datetime b"
    and "year a < year b \<or> (year a = year b \<and>
          (month a < month b \<or> (month a = month b \<and> day a < day b)))"
  shows "toordinal a < toordinal b"
proof -
  have va: "1 \<le> month a" "month a \<le> 12" "1 \<le> day a"
    "day a \<le> days_in_month (year a) (month a)"
    using assms(1) by (simp_all add: valid_datetime_def)
  have vb: "1 \<le> month b" "month b \<le> 12" "1 \<le> day b"
    "day b \<le> days_in_month (year b) (month b)"
    using assms(2) by (simp_all add: valid_datetime_def)
  consider (y) "year a < year b"
    | (m) "year a = year b" "month a < month b"
    | (d) "year a = year b" "month a = month b" "day a < day b"
    using assms(3) by blast
  then show ?thesis
  proof cases
    case y
    have "days_before_month (year a) (month a) + day a \<le> year_length (year a)"
      using va by (intro day_of_year_le) simp_all
    moreover have "days_before_year (year a) + year_length (year a) \<le> days_before_year (year b)"
      using y by (rule days_before_year_mono)
    ultimately show ?thesis
      using days_before_month_nonneg [of "year b" "month b"] vb(3)
      unfolding toordinal_def ymd2ord_def by linarith
  next
    case m
    have "days_before_month (year a) (month a) + days_in_month (year a) (month a)
        \<le> days_before_month (year a) (month b)"
      using va(1) m(2) vb(2) by (rule days_before_month_mono)
    then show ?thesis
      using va(4) vb(3) m(1) unfolding toordinal_def ymd2ord_def by simp
  next
    case d
    then show ?thesis unfolding toordinal_def ymd2ord_def by simp
  qed
qed

text \<open>
  For valid naive datetimes, a later date and time gives a negative number of whole
  elapsed days.
\<close>

lemma elapsed_days_negative:
  assumes va: "valid_datetime a" and vb: "valid_datetime b" and lt: "datetime_lt a b"
  shows "elapsed_days a b < 0"
proof -
  define sa where "sa = hour a * 3600 + minute a * 60 + second a"
  define sb where "sb = hour b * 3600 + minute b * 60 + second b"
  define dd where "dd = toordinal a - toordinal b"
  have ba: "0 \<le> hour a" "hour a \<le> 23" "0 \<le> minute a" "minute a \<le> 59"
    "0 \<le> second a" "second a \<le> 59" "0 \<le> microsecond a" "microsecond a \<le> 999999"
    using va by (simp_all add: valid_datetime_def)
  have bb: "0 \<le> hour b" "hour b \<le> 23" "0 \<le> minute b" "minute b \<le> 59"
    "0 \<le> second b" "second b \<le> 59" "0 \<le> microsecond b" "microsecond b \<le> 999999"
    using vb by (simp_all add: valid_datetime_def)
  have sa: "0 \<le> sa" "sa \<le> 86399" unfolding sa_def using ba by linarith+
  have sb: "0 \<le> sb" "sb \<le> 86399" unfolding sb_def using bb by linarith+
  let ?date_lt = "year a < year b \<or> (year a = year b \<and>
          (month a < month b \<or> (month a = month b \<and> day a < day b)))"
  let ?date_eq = "year a = year b \<and> month a = month b \<and> day a = day b"
  let ?hms_lt = "hour a < hour b \<or> (hour a = hour b \<and>
          (minute a < minute b \<or> (minute a = minute b \<and> second a < second b)))"
  let ?hms_eq = "hour a = hour b \<and> minute a = minute b \<and> second a = second b"
  consider (date) ?date_lt
    | (time) ?date_eq ?hms_lt
    | (us) ?date_eq ?hms_eq "microsecond a < microsecond b"
    using lt unfolding datetime_lt_def by blast
  then have n: "(dd * 86400 + sa - sb) * 1000000 + (microsecond a - microsecond b) < 0"
  proof cases
    case date
    have "toordinal a < toordinal b"
      using va vb date by (rule toordinal_mono)
    then have "dd \<le> - 1" unfolding dd_def by simp
    then have "dd * 86400 + sa - sb \<le> - 1" using sa sb by linarith
    then have "(dd * 86400 + sa - sb) * 1000000 \<le> - 1000000" by simp
    then show ?thesis using ba(7,8) bb(7,8) by linarith
  next
    case time
    have "dd = 0" unfolding dd_def toordinal_def using time(1) by simp
    moreover have "sa < sb"
      unfolding sa_def sb_def using time(2) ba bb by linarith
    ultimately have "dd * 86400 + sa - sb \<le> - 1" by simp
    then have "(dd * 86400 + sa - sb) * 1000000 \<le> - 1000000" by simp
    then show ?thesis using ba(7,8) bb(7,8) by linarith
  next
    case us
    have "dd = 0" unfolding dd_def toordinal_def using us(1) by simp
    moreover have "sa = sb" unfolding sa_def sb_def using us(2) by simp
    ultimately show ?thesis using us(3) by simp
  qed
  have "elapsed_days a b
      = ((dd * 86400 + sa - sb) * 1000000 + (microsecond a - microsecond b)) div 86400000000"
    unfolding elapsed_days_def dd_def sa_def sb_def by (simp add: algebra_simps)
  then show ?thesis
    using n by (simp add: pos_imp_zdiv_neg_iff)
qed

subsection \<open>An account created after the clock's reading\<close>

text \<open>
  Claim C10, as amended. When the \<open>account_creation_date\<close> is naive and later than the
  clock's reading in Python's order on datetimes, the whole-day difference
  \<open>now - account_creation_date\<close> is negative, hence at most 30, and R7 matches with the
  action \<open>review\<close>, in the API and in the dashboard.
\<close>

theorem future_account_date_matches_R7:
  assumes "valid_datetime (shd c)" and "valid_datetime (account_creation_date t)"
    and "tzinfo (account_creation_date t) = None"
    and "datetime_lt (shd c) (account_creation_date t)"
    and "account_creation_date t' = account_creation_date t"
  shows "elapsed_days (shd c) (account_creation_date t) < 0
    \<and> (\<exists>td. datetime_sub (fst (datetime_now c)) (account_creation_date t) = Inr td
          \<and> days td < 0)
    \<and> evaluate rule_R7 t c
        = (Inr (Some ''review'', Some ''Account created recently''), stl c)
    \<and> evaluate app_rule_R7 t' c
        = (Inr (Some ''review'', Some ''Account created recently''), stl c)"
proof -
  have neg: "elapsed_days (shd c) (account_creation_date t) < 0"
    using assms(1,2,4) by (rule elapsed_days_negative)
  have z': "tzinfo (account_creation_date t') = None"
    using assms(3,5) by simp
  have sub: "\<exists>td. datetime_sub (fst (datetime_now c)) (account_creation_date t) = Inr td
          \<and> days td < 0"
    using datetime_sub_naive [OF assms(3), of "(shd c)\<lparr>tzinfo := None\<rparr>"] neg
    by (auto simp: datetime_now_def)
  have api: "evaluate rule_R7 t c
        = (Inr (Some ''review'', Some ''Account created recently''), stl c)"
    using neg by (simp add: evaluate_def rule_R7_def recent_naive [OF assms(3)])
  have app: "evaluate app_rule_R7 t' c
        = (Inr (Some ''review'', Some ''Account created recently''), stl c)"
    using neg by (simp add: evaluate_def app_rule_R7_def recent_naive [OF z'] assms(5))
  show ?thesis using neg sub api app by blast
qed

lemma future_tx_date: "account_creation_date future_tx = mk_datetime 2024 12 22 23 30 1"
  by (simp add: future_tx_def)

lemma future_row_date: "account_creation_date future_row = mk_datetime 2024 12 22 23 30 1"
  by (simp add: future_row_def)

lemma one_second_later:
  "datetime_lt (mk_datetime 2024 12 22 23 30 0) (mk_datetime 2024 12 22 23 30 1)"
  by (simp add: datetime_lt_def mk_datetime_def)

text \<open>
  The amended C10 at an account created one second after the clock's reading.
\<close>

theorem future_account_date_matches_R7_witness:
  "datetime_lt (shd clock_dec22) (account_creation_date future_tx)
    \<and> elapsed_days (shd clock_dec22) (account_creation_date future_tx) < 0
    \<and> evaluate rule_R7 future_tx clock_dec22
        = (Inr (Some ''review'', Some ''Account created recently''), stl clock_dec22)
    \<and> evaluate app_rule_R7 future_row clock_dec22
        = (Inr (Some ''review'', Some ''Account created recently''), stl clock_dec22)"
proof -
  have v1: "valid_datetime (shd clock_dec22)"
    by (simp only: shd_clock_dec22 valid_examples)
  have v2: "valid_datetime (account_creation_date future_tx)"
    by (simp only: future_tx_date valid_examples)
  have z: "tzinfo (account_creation_date future_tx) = None"
    by (simp only: future_tx_date tzinfo_mk_datetime)
  have lt: "datetime_lt (shd clock_dec22) (account_creation_date future_tx)"
    by (simp only: shd_clock_dec22 future_tx_date one_second_later)
  have e: "account_creation_date future_row = account_creation_date future_tx"
    by (simp only: future_tx_date future_row_date)
  show ?thesis
    using future_account_date_matches_R7 [OF v1 v2 z lt e] lt by blast
qed

subsection \<open>Every rule is applied, in order\<close>

lemma evaluate_transactions_loop_naive:
  assumes "\<forall>tx\<in>set txs. tzinfo (account_creation_date tx) = None"
  shows "evaluate_transactions_loop txs create_fraud_rules acc c
    = (Inr (acc @ dashboard_results txs c), sdrop (length txs) c)"
  using assms
proof (induction txs arbitrary: acc c)
  case Nil
  then show ?case by simp
next
  case (Cons tx txs)
  have z: "tzinfo (account_creation_date tx) = None"
    using Cons.prems by simp
  have rest: "\<forall>tx\<in>set txs. tzinfo (account_creation_date tx) = None"
    using Cons.prems by simp
  show ?case
    by (simp add: app_rules_loop_naive [OF z] Cons.IH [OF rest] dashboard_result_def)
qed

text \<open>
  Claim C6, as amended. The rule sets are R1..R9 in this order. For a transaction whose
  \<open>account_creation_date\<close> is naive, the evaluator returns the entry of every rule that
  matches, in rule-definition order, whatever the earlier rules decided: its result is
  the rule list filtered by \<open>rule_matches\<close>. The dashboard does the same for every row
  of a batch of such transactions, each row at the next reading of the clock.
\<close>

theorem evaluator_applies_all_rules_in_order:
  "map rule_id (rules fraud_detector)
     = [''R1'', ''R2'', ''R3'', ''R4'', ''R5'', ''R6'', ''R7'', ''R8'', ''R9'']
   \<and> map rule_id create_fraud_rules
     = [''R1'', ''R2'', ''R3'', ''R4'', ''R5'', ''R6'', ''R7'', ''R8'', ''R9'']
   \<and> (tzinfo (account_creation_date t) = None \<longrightarrow>
       check_fraud fraud_detector t c =
         (Inr (map match_entry (filter (\<lambda>r. rule_matches r t c) (rules fraud_detector))),
          stl c))
   \<and> ((\<forall>tx\<in>set txs. tzinfo (account_creation_date tx) = None) \<longrightarrow>
       evaluate_transactions txs create_fraud_rules c
         = (Inr (dashboard_results txs c), sdrop (length txs) c))"
proof (intro conjI impI)
  show "map rule_id (rules fraud_detector)
     = [''R1'', ''R2'', ''R3'', ''R4'', ''R5'', ''R6'', ''R7'', ''R8'', ''R9'']"
    by (simp add: fraud_detector_def create_rules_def api_rule_defs)
  show "map rule_id create_fraud_rules
     = [''R1'', ''R2'', ''R3'', ''R4'', ''R5'', ''R6'', ''R7'', ''R8'', ''R9'']"
    by (simp add: create_fraud_rules_def app_rule_defs)
next
  assume z: "tzinfo (account_creation_date t) = None"
  show "check_fraud fraud_detector t c =
         (Inr (map match_entry (filter (\<lambda>r. rule_matches r t c) (rules fraud_detector))),
          stl c)"
    unfolding rules_fraud_detector by (rule check_fraud_naive [OF z])
next
  assume "\<forall>tx\<in>set txs. tzinfo (account_creation_date tx) = None"
  then show "evaluate_transactions txs create_fraud_rules c
         = (Inr (dashboard_results txs c), sdrop (length txs) c)"
    by (simp add: evaluate_transactions_def evaluate_transactions_loop_naive)
qed

lemma future_row_fields:
  "id_tx future_row = ''TXN003''"
  "amount future_row = FloatVal 100"
  "payment_channel future_row = ''atm''"
  "device_type future_row = ''Android''"
  "transaction_time future_row = mk_datetime 2024 11 13 5 0 0"
  "location future_row = ''Accra, Ghana''"
  "high_value_tx_count future_row = 0"
  "is_verified future_row"
  "transaction_time_weekday future_row = ''Wednesday''"
  by (simp_all add: future_row_def five_am_row_def)

lemma shd_stl_clock_dec22: "shd (stl clock_dec22) = mk_datetime 2024 12 22 23 30 0"
  by (simp add: clock_dec22_def)

lemma elapsed_one_second_before:
  "elapsed_days (mk_datetime 2024 12 22 23 30 0) (mk_datetime 2024 12 22 23 30 1) = - 1"
  unfolding elapsed_days_def toordinal_2024_12_22
  by (simp add: mk_datetime_def)

lemma future_row_matches:
  "filter (\<lambda>r. rule_matches r future_row (stl clock_dec22)) create_fraud_rules = [app_rule_R7]"
proof -
  have z: "tzinfo (account_creation_date future_row) = None"
    by (simp only: future_row_date tzinfo_mk_datetime)
  have m: "\<not> rule_matches app_rule_R1 future_row (stl clock_dec22)"
    "\<not> rule_matches app_rule_R2 future_row (stl clock_dec22)"
    "\<not> rule_matches app_rule_R3 future_row (stl clock_dec22)"
    "\<not> rule_matches app_rule_R4 future_row (stl clock_dec22)"
    "\<not> rule_matches app_rule_R5 future_row (stl clock_dec22)"
    "\<not> rule_matches app_rule_R6 future_row (stl clock_dec22)"
    "rule_matches app_rule_R7 future_row (stl clock_dec22)"
    "\<not> rule_matches app_rule_R8 future_row (stl clock_dec22)"
    "\<not> rule_matches app_rule_R9 future_row (stl clock_dec22)"
    by (simp_all add: app_pure_matches app_R7_matches [OF z] future_row_fields
        future_row_date hour_mk_datetime shd_stl_clock_dec22 elapsed_one_second_before)
  show ?thesis
    unfolding create_fraud_rules_def using m by simp
qed

lemma dashboard_result_five_am_row:
  "dashboard_result five_am_row clock_dec22 =
     JDict [(''id'', JStr ''TXN003''), (''status'', JStr ''clear''),
            (''details'', JList []), (''weekday'', JStr ''Wednesday''),
            (''location'', JStr ''Accra, Ghana'')]"
  by (simp add: dashboard_result_def five_am_row_matches five_am_row_fields
      five_am_row_weekday)

lemma dashboard_result_future_row:
  "dashboard_result future_row (stl clock_dec22) =
     JDict [(''id'', JStr ''TXN003''), (''status'', JStr ''flagged''),
            (''details'',
               JList [JDict [(''action'', JStr ''review''),
                             (''reason'', JStr ''Account created recently'')]]),
            (''weekday'', JStr ''Wednesday''), (''location'', JStr ''Accra, Ghana'')]"
  by (simp add: dashboard_result_def future_row_matches future_row_fields match_entry_def
      app_rule_R7_def)

text \<open>
  The amended C6 at an unverified account on a Sunday: R8 rejects, and R9 is still
  evaluated and reported after it. Of the two dashboard rows, the first matches nothing
  and the second, evaluated at the second reading of the clock, matches R7.
\<close>

theorem evaluator_applies_all_rules_in_order_witness:
  "check_fraud fraud_detector unverified_sunday_tx clock_dec22 =
     (Inr [JDict [(''action'', JStr ''reject''), (''reason'', JStr ''Unverified account'')],
           JDict [(''action'', JStr ''reject''),
                  (''reason'', JStr ''Transaction during restricted period'')]],
      stl clock_dec22)
   \<and> fst (evaluate_transactions [five_am_row, future_row] create_fraud_rules clock_dec22) =
     Inr [JDict [(''id'', JStr ''TXN003''), (''status'', JStr ''clear''),
                 (''details'', JList []), (''weekday'', JStr ''Wednesday''),
                 (''location'', JStr ''Accra, Ghana'')],
          JDict [(''id'', JStr ''TXN003''), (''status'', JStr ''flagged''),
                 (''details'',
                    JList [JDict [(''action'', JStr ''review''),
                                  (''reason'', JStr ''Account created recently'')]]),
                 (''weekday'', JStr ''Wednesday''), (''location'', JStr ''Accra, Ghana'')]]"
proof -
  have z1: "tzinfo (account_creation_date unverified_sunday_tx) = None"
    by (simp only: unverified_sunday_tx_fields tzinfo_mk_datetime)
  have z2: "\<forall>tx\<in>set [five_am_row, future_row]. tzinfo (account_creation_date tx) = None"
    by (simp add: five_am_row_fields future_row_date tzinfo_mk_datetime)
  show ?thesis
    using evaluator_applies_all_rules_in_order
      [of unverified_sunday_tx clock_dec22 "[five_am_row, future_row]"] z1 z2
    by (simp add: rules_fraud_detector unverified_sunday_matches api_entries
        dashboard_result_five_am_row dashboard_result_future_row)
qed

lemma aware_unverified_tx_fields:
  "account_creation_date aware_unverified_tx
     = (mk_datetime 2022 12 22 12 0 0)\<lparr>tzinfo := Some 0\<rparr>"
  "\<not> is_verified aware_unverified_tx"
  by (simp_all add: aware_unverified_tx_def aware_tx_eq)

lemma aware_unverified_row_date:
  "account_creation_date aware_unverified_row
     = (mk_datetime 2022 12 22 12 0 0)\<lparr>tzinfo := Some 0\<rparr>"
  by (simp add: aware_unverified_row_def)

lemma first_seven_rules:
  "take 7 (rules fraud_detector)
     = [rule_R1, rule_R2, rule_R3, rule_R4, rule_R5, rule_R6] @ [rule_R7]"
  by (simp add: rules_fraud_detector create_rules_def)

text \<open>
  Claim C6 as stated fails. On an unverified account whose \<open>account_creation_date\<close>
  carries the offset \<open>+00:00\<close>, R8 matches, but the loop is left at R7 by \<open>TypeError\<close>:
  already the first seven rules return no list, so R8 and R9 are not evaluated and no
  match sequence is returned, in the API and in the dashboard.
\<close>

theorem loop_left_at_R7_counterexample:
  "valid_datetime (account_creation_date aware_unverified_tx)
   \<and> rule_matches rule_R8 aware_unverified_tx clock_dec22
   \<and> fst (rules_loop (take 7 (rules fraud_detector)) aware_unverified_tx [] clock_dec22)
       = Inl TypeError
   \<and> fst (check_fraud fraud_detector aware_unverified_tx clock_dec22) = Inl TypeError
   \<and> fst (evaluate_transactions [aware_unverified_row] create_fraud_rules clock_dec22)
       = Inl TypeError"
proof (intro conjI)
  have z: "tzinfo (account_creation_date aware_unverified_tx) \<noteq> None"
    by (simp add: aware_unverified_tx_fields)
  have zr: "tzinfo (account_creation_date aware_unverified_row) \<noteq> None"
    by (simp add: aware_unverified_row_date)
  show "valid_datetime (account_creation_date aware_unverified_tx)"
    by (simp only: aware_unverified_tx_fields valid_examples)
  show "rule_matches rule_R8 aware_unverified_tx clock_dec22"
    by (simp add: api_pure_matches aware_unverified_tx_fields)
  have r7: "rules_loop [rule_R7] aware_unverified_tx acc clock_dec22
      = (Inl TypeError, stl clock_dec22)" for acc
    by (rule rules_loop_recent_aware [OF z]) (simp add: rule_R7_def)
  show "fst (rules_loop (take 7 (rules fraud_detector)) aware_unverified_tx [] clock_dec22)
       = Inl TypeError"
    unfolding first_seven_rules
    by (simp only: rules_loop_append rules_loop_pure [OF pure_R1_R6, where c' = clock_dec22]
        r7 prod.case sum.case fst_conv)
  show "fst (check_fraud fraud_detector aware_unverified_tx clock_dec22) = Inl TypeError"
    by (simp add: check_fraud_aware [OF z])
  show "fst (evaluate_transactions [aware_unverified_row] create_fraud_rules clock_dec22)
       = Inl TypeError"
    by (simp add: evaluate_transactions_def app_rules_loop_aware [OF zr])
qed

subsection \<open>An account created after the clock's reading, with an offset\<close>

lemma future_aware_tx_date:
  "account_creation_date future_aware_tx = (mk_datetime 2030 1 1 0 0 0)\<lparr>tzinfo := Some 0\<rparr>"
  by (simp add: future_aware_tx_def)

text \<open>
  Claim C10 as stated fails. An account created at 2030-01-01T00:00:00+00:00 lies in the
  future of the clock's reading of 2024-12-22, and R7 does not match: it raises
  \<open>TypeError\<close>.
\<close>

theorem future_aware_date_counterexample:
  "valid_datetime (account_creation_date future_aware_tx)
   \<and> datetime_lt (shd clock_dec22) (account_creation_date future_aware_tx)
   \<and> evaluate rule_R7 future_aware_tx clock_dec22 = (Inl TypeError, stl clock_dec22)
   \<and> \<not> rule_matches rule_R7 future_aware_tx clock_dec22"
proof (intro conjI)
  have z: "tzinfo (account_creation_date future_aware_tx) \<noteq> None"
    by (simp add: future_aware_tx_date)
  show "valid_datetime (account_creation_date future_aware_tx)"
    by (simp add: future_aware_tx_date valid_datetime_def mk_datetime_def days_in_month_def)
  show "datetime_lt (shd clock_dec22) (account_creation_date future_aware_tx)"
    by (simp add: shd_clock_dec22 future_aware_tx_date datetime_lt_def mk_datetime_def)
  show "evaluate rule_R7 future_aware_tx clock_dec22 = (Inl TypeError, stl clock_dec22)"
    by (simp add: evaluate_def rule_R7_def recent_aware [OF z])
  show "\<not> rule_matches rule_R7 future_aware_tx clock_dec22"
    by (simp add: rule_matches_def rule_R7_def recent_aware [OF z])
qed

end
